theory Spec2Isabelle
  imports Complex_Main "HOL-Library.Word"
begin

section \<open>Python values, exceptions and the job row\<close>

text \<open>
  A Python float is a finite number, an infinity or NaN. A float32 network output
  converts to a Python float without rounding, and the only operation the program
  applies to it is the comparison with 0.5, so the finite values are reals here.
\<close>

datatype pyfloat = Fin real | PInf | NInf | NaN

text \<open>Python's \<^verbatim>\<open>a > b\<close> on floats: every comparison with NaN is false.\<close>

fun float_gt :: "pyfloat \<Rightarrow> pyfloat \<Rightarrow> bool" where
  "float_gt NaN b = False"
| "float_gt a NaN = False"
| "float_gt a PInf = False"
| "float_gt PInf b = True"
| "float_gt NInf b = False"
| "float_gt (Fin a) NInf = True"
| "float_gt (Fin a) (Fin b) = (b < a)"

text \<open>The values the program stores in rows, dictionaries and response bodies.\<close>

datatype pyval =
    PNone
  | PBool bool
  | PFloat pyfloat
  | PStr string
  | PDict "(string \<times> pyval) list"

text \<open>
  Exceptions. \<open>DoesNotExist\<close>, \<open>UnboundLocalError\<close>, \<open>IndexError\<close>,
  \<open>KeyError\<close> and \<open>IntegrityError\<close> are raised at places the source shows;
  \<open>ValidationError v\<close> is what a lookup by primary key raises when \<open>v\<close> is not a
  UUID; \<open>Cv2Error\<close> is what \<^verbatim>\<open>cv2.resize\<close> raises on an empty source;
  \<open>LibraryError msg\<close> is any other exception raised inside a library call, with
  \<^verbatim>\<open>str(e) = msg\<close>.
\<close>

datatype exn =
    DoesNotExist
  | ValidationError string
  | UnboundLocalError
  | IndexError
  | KeyError string
  | IntegrityError
  | Cv2Error
  | LibraryError string

fun str_exn :: "exn \<Rightarrow> string" where
  "str_exn DoesNotExist = ''VerificationJob matching query does not exist.''"
| "str_exn (ValidationError v) = v @ '' is not a valid UUID.''"
| "str_exn UnboundLocalError = ''cannot access local variable job where it is not associated with a value''"
| "str_exn IndexError = ''index 0 is out of bounds''"
| "str_exn (KeyError k) = k"
| "str_exn IntegrityError = ''UNIQUE constraint failed: verification_verificationjob.id''"
| "str_exn Cv2Error = ''(-215:Assertion failed) !ssrc.empty() in function resize''"
| "str_exn (LibraryError msg) = msg"

text \<open>\<^verbatim>\<open>STATUS_CHOICES\<close> of models.py.\<close>

datatype status = Pending | Processing | Completed | Failed

fun status_value :: "status \<Rightarrow> string" where
  "status_value Pending = ''pending''"
| "status_value Processing = ''processing''"
| "status_value Completed = ''completed''"
| "status_value Failed = ''failed''"

text \<open>
  A UUID is identified with its canonical string (lower case, hyphenated), so
  \<^verbatim>\<open>str(job.id)\<close> is the id itself. What a caller passes as an id is any string.
\<close>

type_synonym uuid = string

text \<open>
  The model class \<^verbatim>\<open>VerificationJob\<close>. The field \<^verbatim>\<open>id\<close> is \<open>job_id\<close> here.
  \<open>confidence_score\<close> is a nullable column (\<open>PNone\<close> is null), \<open>analysis_results\<close>
  is a JSON column whose default is the empty dictionary.
\<close>

record VerificationJob =
  job_id :: uuid
  document_hash :: string
  file_path :: string
  status :: status
  confidence_score :: pyval
  analysis_results :: pyval
  created_at :: nat
  completed_at :: "nat option"

section \<open>The environment: libraries and helpers the source calls\<close>

text \<open>
  \<^verbatim>\<open>cv2.imread\<close> with its default flag returns an array of height \<times> width \<times> 3
  bytes (BGR), or \<^verbatim>\<open>None\<close> when the file cannot be read or decoded.
\<close>

type_synonym bgr = "8 word \<times> 8 word \<times> 8 word"
type_synonym image = "bgr list list"
type_synonym tensor = "real list list list list"
type_synonym keras_model = "tensor \<Rightarrow> exn + pyfloat list list"

record uploaded_file =
  upload_name :: string
  content :: "8 word list"

text \<open>
  Everything outside the three source files is a parameter of a run:
  \<^item> \<open>keras_load_model\<close>: \<^verbatim>\<open>tf.keras.models.load_model\<close>, which raises or returns a
    model whose \<^verbatim>\<open>predict\<close> raises or returns an array of rows of floats;
  \<^item> \<open>cv2_imread\<close>, and \<open>cv2_interpolate\<close>, the pixel \<^verbatim>\<open>cv2.resize\<close> computes for
    a row and a column of its output;
  \<^item> \<open>check_font_consistency\<close>, \<open>analyze_pixels\<close>, \<open>detect_compression_artifacts\<close>,
    \<open>calculate_hash\<close> and \<open>save_file\<close>: methods the source calls on \<^verbatim>\<open>self\<close>
    and does not define; each raises or returns a value;
  \<^item> \<open>timezone_now\<close> and \<open>uuid4\<close>: the clock and the fresh primary key;
  \<^item> \<open>to_python\<close>: the conversion \<^verbatim>\<open>UUIDField.to_python\<close> applies to the value
    of a lookup by id: the UUID a string spells, or \<open>None\<close> when it spells none;
  \<^item> \<open>save_processing_error\<close>, \<open>save_completed_error\<close>, \<open>save_failed_error\<close>:
    whether \<^verbatim>\<open>job.save()\<close> raises at line 12, line 21 and line 26 of tasks.py
    (\<open>None\<close>: it writes the row), \<open>create_error\<close> the same for
    \<^verbatim>\<open>objects.create\<close>, and \<open>delay_error\<close> for \<^verbatim>\<open>.delay\<close>.
\<close>

record env =
  keras_load_model :: "string \<Rightarrow> exn + keras_model"
  cv2_imread :: "string \<Rightarrow> image option"
  cv2_interpolate :: "image \<Rightarrow> nat \<Rightarrow> nat \<Rightarrow> bgr"
  check_font_consistency :: "string \<Rightarrow> exn + pyval"
  analyze_pixels :: "string \<Rightarrow> exn + pyval"
  detect_compression_artifacts :: "string \<Rightarrow> exn + pyval"
  calculate_hash :: "uploaded_file \<Rightarrow> exn + string"
  save_file :: "uploaded_file \<Rightarrow> exn + string"
  timezone_now :: nat
  uuid4 :: uuid
  to_python :: "string \<Rightarrow> uuid option"
  save_processing_error :: "string option"
  save_completed_error :: "string option"
  save_failed_error :: "string option"
  create_error :: "string option"
  delay_error :: "string option"

section \<open>The stored state\<close>

text \<open>
  \<open>db\<close> is the table of jobs, \<open>queue\<close> the ids handed to the task queue and not
  yet taken by a worker. Two fields record what happened: \<open>loads\<close> counts the calls
  of \<^verbatim>\<open>load_model\<close> in the process, \<open>written\<close> lists the rows in the order
  \<^verbatim>\<open>objects.create\<close> and \<^verbatim>\<open>job.save()\<close> wrote them.
\<close>

record world =
  db :: "uuid \<rightharpoonup> VerificationJob"
  queue :: "uuid list"
  loads :: nat
  written :: "VerificationJob list"

definition init_world :: world where
  "init_world = \<lparr>db = Map.empty, queue = [], loads = 0, written = []\<rparr>"

section \<open>forgery\_detector.py\<close>

record ForgeryDetector =
  model :: keras_model

text \<open>\<^verbatim>\<open>load_model\<close>: the artifact at the fixed path; an exception propagates.\<close>

definition load_model :: "env \<Rightarrow> world \<Rightarrow> (exn + keras_model) \<times> world" where
  "load_model e w =
     (keras_load_model e ''models/forgery_detection_model.h5'', w\<lparr>loads := Suc (loads w)\<rparr>)"

text \<open>\<^verbatim>\<open>__init__\<close>: \<^verbatim>\<open>self.model = self.load_model()\<close>.\<close>

definition ForgeryDetector_init :: "env \<Rightarrow> world \<Rightarrow> (exn + ForgeryDetector) \<times> world" where
  "ForgeryDetector_init e w =
     (case load_model e w of
        (Inl x, w') \<Rightarrow> (Inl x, w')
      | (Inr m, w') \<Rightarrow> (Inr \<lparr>model = m\<rparr>, w'))"

text \<open>
  \<^verbatim>\<open>cv2.resize(image, (w, h))\<close>: raises on \<^verbatim>\<open>None\<close> and on an empty array,
  otherwise returns \<open>h\<close> rows of \<open>w\<close> pixels of the source's type.
\<close>

definition cv2_resize :: "env \<Rightarrow> image option \<Rightarrow> nat \<times> nat \<Rightarrow> exn + image" where
  "cv2_resize e src dsize =
     (case src of
        None \<Rightarrow> Inl Cv2Error
      | Some img \<Rightarrow>
          if img = [] \<or> hd img = [] then Inl Cv2Error
          else Inr (map (\<lambda>r. map (\<lambda>c. cv2_interpolate e img r c) [0..<fst dsize])
                        [0..<snd dsize]))"

text \<open>\<^verbatim>\<open>image / 255.0\<close>: every byte becomes a float.\<close>

definition scale_pixel :: "bgr \<Rightarrow> real list" where
  "scale_pixel p =
     (case p of (b, g, r) \<Rightarrow>
        [real (unat b) / 255, real (unat g) / 255, real (unat r) / 255])"

definition divide_255 :: "image \<Rightarrow> real list list list" where
  "divide_255 img = map (map scale_pixel) img"

text \<open>\<^verbatim>\<open>np.expand_dims(image, axis=0)\<close>.\<close>

definition expand_dims :: "real list list list \<Rightarrow> tensor" where
  "expand_dims a = [a]"

definition preprocess_image :: "env \<Rightarrow> string \<Rightarrow> exn + tensor" where
  "preprocess_image e image_path =
     (let image = cv2_imread e image_path in
      (case cv2_resize e image (224, 224) of
         Inl x \<Rightarrow> Inl x
       | Inr resized \<Rightarrow> Inr (expand_dims (divide_255 resized))))"

definition get_detailed_analysis :: "env \<Rightarrow> string \<Rightarrow> exn + (string \<times> pyval) list" where
  "get_detailed_analysis e image_path =
     (case check_font_consistency e image_path of
        Inl x \<Rightarrow> Inl x
      | Inr font \<Rightarrow>
     (case analyze_pixels e image_path of
        Inl x \<Rightarrow> Inl x
      | Inr pixels \<Rightarrow>
     (case detect_compression_artifacts e image_path of
        Inl x \<Rightarrow> Inl x
      | Inr artifacts \<Rightarrow>
          Inr [(''font_consistency'', font),
               (''pixel_analysis'', pixels),
               (''compression_artifacts'', artifacts)])))"

text \<open>\<^verbatim>\<open>prediction[0][0]\<close>: an index out of range raises.\<close>

definition first_output :: "pyfloat list list \<Rightarrow> exn + pyfloat" where
  "first_output prediction =
     (case prediction of
        [] \<Rightarrow> Inl IndexError
      | row # _ \<Rightarrow> (case row of [] \<Rightarrow> Inl IndexError | x # _ \<Rightarrow> Inr x))"

definition detect_forgery :: "env \<Rightarrow> ForgeryDetector \<Rightarrow> string \<Rightarrow> exn + (string \<times> pyval) list" where
  "detect_forgery e self image_path =
     (case preprocess_image e image_path of
        Inl x \<Rightarrow> Inl x
      | Inr processed_image \<Rightarrow>
     (case model self processed_image of
        Inl x \<Rightarrow> Inl x
      | Inr prediction \<Rightarrow>
     (case first_output prediction of
        Inl x \<Rightarrow> Inl x
      | Inr confidence \<Rightarrow>
          let is_authentic = float_gt confidence (Fin 0.5) in
          (case get_detailed_analysis e image_path of
             Inl x \<Rightarrow> Inl x
           | Inr details \<Rightarrow>
               Inr [(''is_authentic'', PBool is_authentic),
                    (''confidence_score'', PFloat confidence),
                    (''analysis_details'', PDict details)]))))"

section \<open>models.py: the table\<close>

text \<open>
  \<^verbatim>\<open>VerificationJob.objects.get(id=...)\<close>: the value is converted to a UUID first,
  which raises when the string spells none; then the row of that UUID is looked up.
\<close>

definition objects_get :: "env \<Rightarrow> world \<Rightarrow> string \<Rightarrow> exn + VerificationJob" where
  "objects_get e w i =
     (case to_python e i of
        None \<Rightarrow> Inl (ValidationError i)
      | Some u \<Rightarrow> (case db w u of None \<Rightarrow> Inl DoesNotExist | Some job \<Rightarrow> Inr job))"

text \<open>
  A write of a row, by insert or update: the row of the object's primary key takes
  every field of the object.
\<close>

definition write_row :: "VerificationJob \<Rightarrow> world \<Rightarrow> world" where
  "write_row job w = w\<lparr>db := (db w)(job_id job \<mapsto> job), written := written w @ [job]\<rparr>"

text \<open>\<^verbatim>\<open>job.save()\<close> writes the row, or raises and writes nothing.\<close>

definition save :: "string option \<Rightarrow> VerificationJob \<Rightarrow> world \<Rightarrow> exn + world" where
  "save err job w =
     (case err of
        Some msg \<Rightarrow> Inl (LibraryError msg)
      | None \<Rightarrow> Inr (write_row job w))"

text \<open>
  \<^verbatim>\<open>VerificationJob.objects.create(document_hash=..., file_path=..., status=...)\<close>:
  the other fields take their defaults, and the insert fails on a primary key in use.
\<close>

definition objects_create ::
  "env \<Rightarrow> world \<Rightarrow> string \<Rightarrow> string \<Rightarrow> status \<Rightarrow> exn + VerificationJob \<times> world" where
  "objects_create e w h p s =
     (let job = \<lparr>job_id = uuid4 e, document_hash = h, file_path = p, status = s,
                 confidence_score = PNone, analysis_results = PDict [],
                 created_at = timezone_now e, completed_at = None\<rparr>
      in (case create_error e of
            Some msg \<Rightarrow> Inl (LibraryError msg)
          | None \<Rightarrow>
              if db w (job_id job) \<noteq> None then Inl IntegrityError
              else Inr (job, write_row job w)))"

section \<open>tasks.py: the worker\<close>

datatype outcome = Returned | Raised exn

text \<open>\<^verbatim>\<open>results['confidence_score']\<close>.\<close>

definition dict_getitem :: "(string \<times> pyval) list \<Rightarrow> string \<Rightarrow> exn + pyval" where
  "dict_getitem d k = (case map_of d k of None \<Rightarrow> Inl (KeyError k) | Some v \<Rightarrow> Inr v)"

text \<open>
  The \<^verbatim>\<open>except Exception as e\<close> block. The local variable \<^verbatim>\<open>job\<close> is unbound
  (\<open>None\<close>) when the exception came from the lookup at line 10; reading it raises
  inside the handler, and so does a failing \<^verbatim>\<open>job.save()\<close>.
\<close>

definition except_handler ::
  "env \<Rightarrow> VerificationJob option \<Rightarrow> exn \<Rightarrow> world \<Rightarrow> outcome \<times> world" where
  "except_handler e job_var x w =
     (case job_var of
        None \<Rightarrow> (Raised UnboundLocalError, w)
      | Some job \<Rightarrow>
          (let job' = job\<lparr>status := Failed,
                          analysis_results := PDict [(''error'', PStr (str_exn x))]\<rparr>
           in (case save (save_failed_error e) job' w of
                 Inl x' \<Rightarrow> (Raised x', w)
               | Inr w' \<Rightarrow> (Returned, w'))))"

definition process_document_verification :: "env \<Rightarrow> world \<Rightarrow> string \<Rightarrow> outcome \<times> world" where
  "process_document_verification e w jid =
     (case objects_get e w jid of
        Inl x \<Rightarrow> except_handler e None x w
      | Inr job0 \<Rightarrow>
          let job1 = job0\<lparr>status := Processing\<rparr> in
          (case save (save_processing_error e) job1 w of
             Inl x \<Rightarrow> except_handler e (Some job1) x w
           | Inr w1 \<Rightarrow>
          (case ForgeryDetector_init e w1 of
             (Inl x, w2) \<Rightarrow> except_handler e (Some job1) x w2
           | (Inr detector, w2) \<Rightarrow>
          (case detect_forgery e detector (file_path job1) of
             Inl x \<Rightarrow> except_handler e (Some job1) x w2
           | Inr results \<Rightarrow>
          (case dict_getitem results ''confidence_score'' of
             Inl x \<Rightarrow> except_handler e (Some job1) x w2
           | Inr score \<Rightarrow>
               let job2 = job1\<lparr>confidence_score := score,
                               analysis_results := PDict results,
                               status := Completed,
                               completed_at := Some (timezone_now e)\<rparr>
               in (case save (save_completed_error e) job2 w2 of
                     Inl x \<Rightarrow> except_handler e (Some job2) x w2
                   | Inr w3 \<Rightarrow> (Returned, w3)))))))"

section \<open>models.py: the view\<close>

record request =
  FILES :: "string \<rightharpoonup> uploaded_file"

record response =
  status_code :: nat
  data :: "(string \<times> pyval) list"

text \<open>\<^verbatim>\<open>process_document_verification.delay(str(job.id))\<close>.\<close>

definition delay :: "env \<Rightarrow> world \<Rightarrow> uuid \<Rightarrow> exn + world" where
  "delay e w jid =
     (case delay_error e of
        Some msg \<Rightarrow> Inl (LibraryError msg)
      | None \<Rightarrow> Inr (w\<lparr>queue := queue w @ [jid]\<rparr>))"

text \<open>
  \<^verbatim>\<open>not uploaded_file\<close> holds for \<^verbatim>\<open>None\<close> and for a file object whose name is
  empty. An exception that leaves \<open>post\<close> is \<open>Inl\<close>.
\<close>

definition post :: "env \<Rightarrow> world \<Rightarrow> request \<Rightarrow> (exn + response) \<times> world" where
  "post e w request =
     (let uploaded = FILES request ''document'' in
      if uploaded = None \<or> upload_name (the uploaded) = [] then
        (Inr \<lparr>status_code = 400, data = [(''error'', PStr ''No document provided'')]\<rparr>, w)
      else
        (case calculate_hash e (the uploaded) of
           Inl x \<Rightarrow> (Inl x, w)
         | Inr h \<Rightarrow>
        (case save_file e (the uploaded) of
           Inl x \<Rightarrow> (Inl x, w)
         | Inr p \<Rightarrow>
        (case objects_create e w h p Pending of
           Inl x \<Rightarrow> (Inl x, w)
         | Inr (job, w1) \<Rightarrow>
        (case delay e w1 (job_id job) of
           Inl x \<Rightarrow> (Inl x, w1)
         | Inr w2 \<Rightarrow>
             (Inr \<lparr>status_code = 200,
                   data = [(''verification_id'', PStr (job_id job)),
                           (''status'', PStr (status_value (status job)))]\<rparr>, w2))))))"

text \<open>
  \<open>get\<close> catches \<^verbatim>\<open>VerificationJob.DoesNotExist\<close> and nothing else: any other exception
  of the lookup leaves the view (\<open>Inl\<close>).
\<close>

definition get :: "env \<Rightarrow> world \<Rightarrow> string \<Rightarrow> (exn + response) \<times> world" where
  "get e w verification_id =
     (case objects_get e w verification_id of
        Inr job \<Rightarrow>
          (Inr \<lparr>status_code = 200,
                data = [(''verification_id'', PStr (job_id job)),
                        (''status'', PStr (status_value (status job))),
                        (''confidence_score'', confidence_score job),
                        (''analysis_results'', analysis_results job)]\<rparr>, w)
      | Inl x \<Rightarrow>
          (if x = DoesNotExist then
             (Inr \<lparr>status_code = 404,
                   data = [(''error'', PStr ''Verification job not found'')]\<rparr>, w)
           else (Inl x, w)))"

section \<open>The system: requests and worker runs\<close>

text \<open>Taking an id off the queue.\<close>

definition take_job :: "string \<Rightarrow> world \<Rightarrow> world" where
  "take_job jid w = w\<lparr>queue := remove1 jid (queue w)\<rparr>"

text \<open>
  One step of the system is a request or the run of the task on a queued id; each
  request and each run has its own environment. Delivery is at least once: the run of
  a queued id either takes the id off the queue (\<open>ack\<close>) or leaves it there, to be
  delivered again. A state is reachable when steps lead to it from the empty state.
\<close>

inductive step :: "world \<Rightarrow> world \<Rightarrow> bool" where
  step_post: "post e w rq = (r, w') \<Longrightarrow> step w w'"
| step_get: "get e w i = (rs, w') \<Longrightarrow> step w w'"
| step_work: "jid \<in> set (queue w) \<Longrightarrow>
     process_document_verification e (if ack then take_job jid w else w) jid = (out, w') \<Longrightarrow>
     step w w'"

inductive reachable :: "world \<Rightarrow> bool" where
  reach_init: "reachable init_world"
| reach_step: "reachable w \<Longrightarrow> step w w' \<Longrightarrow> reachable w'"

text \<open>The statuses written to the row of a job, oldest first.\<close>

definition status_history :: "world \<Rightarrow> uuid \<Rightarrow> status list" where
  "status_history w i = map status (filter (\<lambda>j. job_id j = i) (written w))"

text \<open>
  The status histories of a job that was run at most once: it is created pending; the
  worker writes processing and then completed or failed, or, when its first save
  raises, failed at once. \<open>worker_writes\<close> are the statuses one run can write.
\<close>

definition allowed_history :: "status list \<Rightarrow> bool" where
  "allowed_history h \<longleftrightarrow>
     h \<in> {[], [Pending], [Pending, Processing], [Pending, Processing, Completed],
          [Pending, Processing, Failed], [Pending, Failed]}"

definition worker_writes :: "status list \<Rightarrow> bool" where
  "worker_writes h \<longleftrightarrow>
     h \<in> {[], [Processing], [Processing, Completed], [Processing, Failed], [Failed]}"

text \<open>What a row holds in each status.\<close>

definition fresh_row :: "VerificationJob \<Rightarrow> bool" where
  "fresh_row j \<longleftrightarrow>
     confidence_score j = PNone \<and> completed_at j = None \<and> analysis_results j = PDict []"

definition completed_row :: "VerificationJob \<Rightarrow> bool" where
  "completed_row j \<longleftrightarrow>
     (\<exists>e self results.
        detect_forgery e self (file_path j) = Inr results \<and>
        analysis_results j = PDict results \<and>
        map_of results ''confidence_score'' = Some (confidence_score j) \<and>
        completed_at j \<noteq> None)"

definition failed_row :: "VerificationJob \<Rightarrow> bool" where
  "failed_row j \<longleftrightarrow> (\<exists>msg. analysis_results j = PDict [(''error'', PStr msg)])"

definition row_ok :: "VerificationJob \<Rightarrow> bool" where
  "row_ok j =
     (case status j of
        Pending \<Rightarrow> fresh_row j
      | Processing \<Rightarrow> True
      | Completed \<Rightarrow> completed_row j
      | Failed \<Rightarrow> failed_row j)"

text \<open>
  The invariant of the reachable states, job by job: a row is stored under its own
  id, it holds the last status written for it, and a pending, completed or failed
  row holds what its status says. (A processing row can carry the results of an
  earlier run.)
\<close>

definition job_inv :: "world \<Rightarrow> uuid \<Rightarrow> bool" where
  "job_inv w i \<longleftrightarrow>
     (case db w i of
        None \<Rightarrow> status_history w i = []
      | Some j \<Rightarrow> job_id j = i \<and> row_ok j \<and> status_history w i \<noteq> [] \<and>
                  last (status_history w i) = status j)"

definition inv :: "world \<Rightarrow> bool" where
  "inv w \<longleftrightarrow> (\<forall>i. job_inv w i)"

text \<open>The objects and states the worker and the view build, named for the proofs.\<close>

definition as_failed :: "exn \<Rightarrow> VerificationJob \<Rightarrow> VerificationJob" where
  "as_failed x job =
     job\<lparr>status := Failed, analysis_results := PDict [(''error'', PStr (str_exn x))]\<rparr>"

definition as_completed ::
  "pyval \<Rightarrow> (string \<times> pyval) list \<Rightarrow> nat \<Rightarrow> VerificationJob \<Rightarrow> VerificationJob" where
  "as_completed score results t job =
     job\<lparr>confidence_score := score, analysis_results := PDict results,
         status := Completed, completed_at := Some t\<rparr>"

definition loaded :: "world \<Rightarrow> world" where
  "loaded w = w\<lparr>loads := Suc (loads w)\<rparr>"

definition new_job :: "env \<Rightarrow> string \<Rightarrow> string \<Rightarrow> VerificationJob" where
  "new_job e h p =
     \<lparr>job_id = uuid4 e, document_hash = h, file_path = p, status = Pending,
      confidence_score = PNone, analysis_results = PDict [],
      created_at = timezone_now e, completed_at = None\<rparr>"

definition enqueued :: "uuid \<Rightarrow> world \<Rightarrow> world" where
  "enqueued i w = w\<lparr>queue := queue w @ [i]\<rparr>"

text \<open>
  The shape of a four-dimensional array, and the range of its entries.
\<close>

definition has_shape :: "nat \<times> nat \<times> nat \<times> nat \<Rightarrow> tensor \<Rightarrow> bool" where
  "has_shape s t =
     (case s of (n, h, w, c) \<Rightarrow>
        length t = n \<and>
        list_all (\<lambda>img. length img = h \<and>
          list_all (\<lambda>row. length row = w \<and>
            list_all (\<lambda>px. length px = c) row) img) t)"

definition in_unit_interval :: "tensor \<Rightarrow> bool" where
  "in_unit_interval t =
     list_all (list_all (list_all (list_all (\<lambda>v. 0 \<le> v \<and> v \<le> 1)))) t"

section \<open>A concrete environment\<close>

text \<open>
  A conversion of id strings for the examples: it accepts the hexadecimal spelling of
  a UUID with or without hyphens, in either case, and answers the canonical string.
\<close>

definition hex_lower :: "char \<Rightarrow> char" where
  "hex_lower c = (case map_of (zip ''ABCDEF'' ''abcdef'') c of Some d \<Rightarrow> d | None \<Rightarrow> c)"

definition parse_uuid :: "string \<Rightarrow> uuid option" where
  "parse_uuid s =
     (let h = map hex_lower (filter (\<lambda>c. c \<noteq> CHR ''-'') s) in
      if length h = 32 \<and> list_all (\<lambda>c. c \<in> set ''0123456789abcdef'') h then
        Some (take 8 h @ ''-'' @ take 4 (drop 8 h) @ ''-'' @ take 4 (drop 12 h) @ ''-'' @
              take 4 (drop 16 h) @ ''-'' @ drop 20 h)
      else None)"

text \<open>Three UUIDs, and another spelling of the first.\<close>

definition id_1 :: uuid where
  "id_1 = ''6f1c2a9e-0b7d-4c3a-9e51-2d8f4a6b7c10''"

definition id_1_upper :: string where
  "id_1_upper = ''6F1C2A9E0B7D4C3A9E512D8F4A6B7C10''"

definition id_2 :: uuid where
  "id_2 = ''a3e5d7c9-1f2b-4d6e-8a0c-5b7d9f1e3c42''"

definition id_3 :: uuid where
  "id_3 = ''0d4b6f8a-2c1e-4a59-b7d3-9e6c8a0f2b54''"

text \<open>
  One upload, stored at \<open>uploads/a.jpg\<close> as an image of a single pixel; a model that
  answers 0.7; helpers that return; no database or queue failure.
\<close>

definition env_ok :: env where
  "env_ok =
     \<lparr>keras_load_model = (\<lambda>path. Inr (\<lambda>t. Inr [[Fin 0.7]])),
      cv2_imread = (\<lambda>path. if path = ''uploads/a.jpg'' then Some [[(1, 2, 3)]] else None),
      cv2_interpolate = (\<lambda>img r c. hd (hd img)),
      check_font_consistency = (\<lambda>path. Inr (PStr ''consistent'')),
      analyze_pixels = (\<lambda>path. Inr (PStr ''clean'')),
      detect_compression_artifacts = (\<lambda>path. Inr (PBool False)),
      calculate_hash = (\<lambda>f. Inr ''9f86d081''),
      save_file = (\<lambda>f. Inr ''uploads/a.jpg''),
      timezone_now = 5,
      uuid4 = id_1,
      to_python = parse_uuid,
      save_processing_error = None,
      save_completed_error = None,
      save_failed_error = None,
      create_error = None,
      delay_error = None\<rparr>"

definition upload_a :: uploaded_file where
  "upload_a = \<lparr>upload_name = ''a.jpg'', content = [255, 216, 255]\<rparr>"

definition request_a :: request where
  "request_a = \<lparr>FILES = [''document'' \<mapsto> upload_a]\<rparr>"

text \<open>
  Variants of that environment: the save at line 21 raises; the save at line 12
  raises; the model file is missing; the model answers 1.5; a second upload gets the
  key \<open>id_2\<close>.
\<close>

definition env_late_failure :: env where
  "env_late_failure =
     env_ok\<lparr>save_completed_error := Some ''Object of type ndarray is not JSON serializable''\<rparr>"

definition env_early_failure :: env where
  "env_early_failure = env_ok\<lparr>save_processing_error := Some ''database is locked''\<rparr>"

definition env_no_model :: env where
  "env_no_model =
     env_ok\<lparr>keras_load_model :=
       (\<lambda>path. Inl (LibraryError ''No file or directory found at models/forgery_detection_model.h5''))\<rparr>"

definition env_wide :: env where
  "env_wide = env_ok\<lparr>keras_load_model := (\<lambda>path. Inr (\<lambda>t. Inr [[Fin 1.5]]))\<rparr>"

definition env_second :: env where
  "env_second = env_ok\<lparr>uuid4 := id_2\<rparr>"

text \<open>
  The states these environments lead to: after the upload; after a run of the
  worker on it in each environment; after a second delivery of the finished job;
  after two uploads and two runs.
\<close>

definition job_a :: VerificationJob where
  "job_a =
     \<lparr>job_id = id_1, document_hash = ''9f86d081'', file_path = ''uploads/a.jpg'',
      status = Pending, confidence_score = PNone, analysis_results = PDict [],
      created_at = 5, completed_at = None\<rparr>"

definition world_posted :: world where
  "world_posted = snd (post env_ok init_world request_a)"

definition world_after :: "env \<Rightarrow> world" where
  "world_after e = snd (process_document_verification e (take_job id_1 world_posted) id_1)"

definition world_unacked :: world where
  "world_unacked = snd (process_document_verification env_ok world_posted id_1)"

definition world_redelivered :: world where
  "world_redelivered =
     snd (process_document_verification env_ok (take_job id_1 world_unacked) id_1)"

definition world_two_posted :: world where
  "world_two_posted = snd (post env_second world_posted request_a)"

definition world_two_done :: world where
  "world_two_done =
     snd (process_document_verification env_ok
            (take_job id_2
               (snd (process_document_verification env_ok
                       (take_job id_1 world_two_posted) id_1)))
            id_2)"

section \<open>Properties of the detector\<close>

lemma float_gt_Fin: "float_gt c (Fin h) \<longleftrightarrow> c = PInf \<or> (\<exists>x. c = Fin x \<and> h < x)"
  by (cases c) auto

text \<open>
  C5. Whatever the image, when \<open>detect_forgery\<close> returns, its \<open>is_authentic\<close> entry
  is true exactly if its \<open>confidence_score\<close> entry is strictly greater than 0.5 (a
  finite number above one half, or plus infinity; never NaN), and at the score 0.5
  itself the result is not authentic.
\<close>

theorem detect_forgery_threshold:
  "detect_forgery e self p = Inr results \<Longrightarrow>
   \<exists>c. map_of results ''confidence_score'' = Some (PFloat c) \<and>
       map_of results ''is_authentic'' =
         Some (PBool (c = PInf \<or> (\<exists>x. c = Fin x \<and> 1 / 2 < x))) \<and>
       (c = Fin (1 / 2) \<longrightarrow> map_of results ''is_authentic'' = Some (PBool False))"
  by (auto simp: detect_forgery_def float_gt_Fin split: sum.splits)

theorem detect_forgery_threshold_witness:
  "detect_forgery env_ok \<lparr>model = (\<lambda>t. Inr [[Fin (1 / 2)]])\<rparr> ''uploads/a.jpg'' =
     Inr [(''is_authentic'', PBool False), (''confidence_score'', PFloat (Fin (1 / 2))),
          (''analysis_details'', PDict [(''font_consistency'', PStr ''consistent''),
             (''pixel_analysis'', PStr ''clean''), (''compression_artifacts'', PBool False)])] \<and>
   (\<exists>c. map_of [(''is_authentic'', PBool False), (''confidence_score'', PFloat (Fin (1 / 2))),
          (''analysis_details'', PDict [(''font_consistency'', PStr ''consistent''),
             (''pixel_analysis'', PStr ''clean''), (''compression_artifacts'', PBool False)])]
          ''confidence_score'' = Some (PFloat c) \<and> c = Fin (1 / 2))"
proof -
  have h: "detect_forgery env_ok \<lparr>model = (\<lambda>t. Inr [[Fin (1 / 2)]])\<rparr> ''uploads/a.jpg'' =
     Inr [(''is_authentic'', PBool False), (''confidence_score'', PFloat (Fin (1 / 2))),
          (''analysis_details'', PDict [(''font_consistency'', PStr ''consistent''),
             (''pixel_analysis'', PStr ''clean''), (''compression_artifacts'', PBool False)])]"
    by (simp add: detect_forgery_def preprocess_image_def cv2_resize_def env_ok_def
        first_output_def get_detailed_analysis_def del: upt_rec_numeral)
  show ?thesis using h detect_forgery_threshold [OF h] by simp
qed

lemma byte_le_255: "unat (b :: 8 word) \<le> 255"
  using unsigned_less [of b, where ?'a = nat] by simp

lemma scaled_byte_range: "n \<le> 255 \<Longrightarrow> 0 \<le> real n / 255 \<and> real n / 255 \<le> 1"
  by simp

lemma scale_pixel_length: "length (scale_pixel p) = 3"
  by (cases p) (simp add: scale_pixel_def)

lemma scale_pixel_range: "list_all (\<lambda>v. 0 \<le> v \<and> v \<le> 1) (scale_pixel p)"
proof -
  obtain b g r where p: "p = (b, g, r)" by (cases p)
  have "scale_pixel p = [real (unat b) / 255, real (unat g) / 255, real (unat r) / 255]"
    by (simp add: p scale_pixel_def)
  then show ?thesis
    using scaled_byte_range [OF byte_le_255 [of b]] scaled_byte_range [OF byte_le_255 [of g]]
      scaled_byte_range [OF byte_le_255 [of r]]
    by (simp only: list.pred_inject simp_thms)
qed

lemma cv2_resize_Some:
  "img \<noteq> [] \<Longrightarrow> hd img \<noteq> [] \<Longrightarrow>
   cv2_resize e (Some img) (w, h) =
     Inr (map (\<lambda>r. map (\<lambda>c. cv2_interpolate e img r c) [0..<w]) [0..<h])"
  by (simp add: cv2_resize_def)

lemma has_shape_scaled:
  "has_shape (1, h, w, 3) (expand_dims (divide_255 (map (\<lambda>r. map (f r) [0..<w]) [0..<h])))"
  by (simp add: has_shape_def expand_dims_def divide_255_def list_all_iff scale_pixel_length
      del: upt_rec_numeral)

lemma in_unit_interval_scaled: "in_unit_interval (expand_dims (divide_255 img))"
  by (simp add: in_unit_interval_def expand_dims_def divide_255_def list_all_iff
      scale_pixel_range [unfolded list_all_iff])

lemma preprocess_image_entries:
  assumes "r < h" "c < w"
  shows "expand_dims (divide_255 (map (\<lambda>r. map (f r) [0..<w]) [0..<h])) ! 0 ! r ! c =
         scale_pixel (f r c)"
  using assms by (simp add: expand_dims_def divide_255_def del: upt_rec_numeral)

text \<open>
  C8. When \<^verbatim>\<open>cv2.imread\<close> decodes the file (to an array that is not empty),
  \<open>preprocess_image\<close> returns an array of shape 1 \<times> 224 \<times> 224 \<times> 3 whose entries lie
  in [0, 1]: the entry at row \<open>r\<close> and column \<open>c\<close> holds the three bytes of the pixel
  \<^verbatim>\<open>cv2.resize\<close> computed there, each divided by 255. When the file is unreadable or
  not an image, so that \<^verbatim>\<open>cv2.imread\<close> returns \<^verbatim>\<open>None\<close>, \<open>preprocess_image\<close> fails
  with the error \<^verbatim>\<open>cv2.resize\<close> raises on the missing image.
\<close>

theorem preprocess_image_tensor:
  "(cv2_imread e p = Some img \<and> img \<noteq> [] \<and> hd img \<noteq> [] \<longrightarrow>
      (\<exists>t. preprocess_image e p = Inr t \<and> has_shape (1, 224, 224, 3) t \<and> in_unit_interval t \<and>
           (\<forall>r<224. \<forall>c<224.
              t ! 0 ! r ! c =
                (case cv2_interpolate e img r c of
                   (b, g, rd) \<Rightarrow> [real (unat b) / 255, real (unat g) / 255, real (unat rd) / 255])))) \<and>
   (cv2_imread e p = None \<longrightarrow> preprocess_image e p = Inl Cv2Error)"
proof (intro conjI impI)
  assume a: "cv2_imread e p = Some img \<and> img \<noteq> [] \<and> hd img \<noteq> []"
  let ?t = "expand_dims (divide_255
        (map (\<lambda>r. map (\<lambda>c. cv2_interpolate e img r c) [0..<224]) [0..<224]))"
  have t: "preprocess_image e p = Inr ?t"
    using a by (simp add: preprocess_image_def cv2_resize_Some del: upt_rec_numeral)
  have "\<forall>r<224. \<forall>c<224. ?t ! 0 ! r ! c =
                (case cv2_interpolate e img r c of
                   (b, g, rd) \<Rightarrow> [real (unat b) / 255, real (unat g) / 255, real (unat rd) / 255])"
    using preprocess_image_entries [of _ 224 _ 224 "\<lambda>r c. cv2_interpolate e img r c"]
    by (simp add: scale_pixel_def)
  then show "\<exists>t. preprocess_image e p = Inr t \<and> has_shape (1, 224, 224, 3) t \<and>
      in_unit_interval t \<and>
      (\<forall>r<224. \<forall>c<224.
              t ! 0 ! r ! c =
                (case cv2_interpolate e img r c of
                   (b, g, rd) \<Rightarrow> [real (unat b) / 255, real (unat g) / 255, real (unat rd) / 255]))"
    using t has_shape_scaled [of 224 224] in_unit_interval_scaled by blast
next
  assume "cv2_imread e p = None"
  then show "preprocess_image e p = Inl Cv2Error"
    by (simp add: preprocess_image_def cv2_resize_def)
qed

theorem preprocess_image_tensor_witness:
  "cv2_imread env_ok ''uploads/a.jpg'' = Some [[(1, 2, 3)]] \<and>
   (\<exists>t. preprocess_image env_ok ''uploads/a.jpg'' = Inr t \<and>
        has_shape (1, 224, 224, 3) t \<and> in_unit_interval t \<and>
        t ! 0 ! 0 ! 0 = [1 / 255, 2 / 255, 3 / 255] \<and>
        t ! 0 ! 223 ! 223 = [1 / 255, 2 / 255, 3 / 255]) \<and>
   cv2_imread env_ok ''missing.jpg'' = None \<and>
   preprocess_image env_ok ''missing.jpg'' = Inl Cv2Error"
proof -
  have a: "cv2_imread env_ok ''uploads/a.jpg'' = Some [[(1, 2, 3)]]"
    by (simp add: env_ok_def)
  have b: "cv2_imread env_ok ''missing.jpg'' = None"
    by (simp add: env_ok_def)
  have i: "cv2_interpolate env_ok [[(1, 2, 3)]] r c = (1, 2, 3)" for r c
    by (simp add: env_ok_def)
  obtain t where t: "preprocess_image env_ok ''uploads/a.jpg'' = Inr t"
    "has_shape (1, 224, 224, 3) t" "in_unit_interval t"
    "\<forall>r<224. \<forall>c<224. t ! 0 ! r ! c =
        (case cv2_interpolate env_ok [[(1, 2, 3)]] r c of
           (b, g, rd) \<Rightarrow> [real (unat b) / 255, real (unat g) / 255, real (unat rd) / 255])"
    using a preprocess_image_tensor [of env_ok "''uploads/a.jpg''" "[[(1, 2, 3)]]"] by auto
  have "t ! 0 ! 0 ! 0 = [1 / 255, 2 / 255, 3 / 255]"
    "t ! 0 ! 223 ! 223 = [1 / 255, 2 / 255, 3 / 255]"
    using t(4) by (simp_all add: i)
  then show ?thesis
    using a b t(1,2,3) preprocess_image_tensor [of env_ok "''missing.jpg''" "[]"]
    by auto
qed

section \<open>Properties of the view\<close>

lemma parse_uuid_examples:
  "parse_uuid id_1 = Some id_1" "parse_uuid id_2 = Some id_2" "parse_uuid id_3 = Some id_3"
  "parse_uuid id_1_upper = Some id_1" "parse_uuid ''job-9'' = None"
  by (simp_all add: parse_uuid_def hex_lower_def id_1_def id_2_def id_3_def id_1_upper_def)

lemma to_python_env_ok: "to_python env_ok = parse_uuid"
  by (simp add: env_ok_def)




text \<open>
  C7. For a request whose files lack the field \<open>document\<close>, \<open>post\<close> answers 400
  with an error body and returns the state unchanged: no row is created and nothing
  is put on the queue.
\<close>

theorem post_without_document:
  "FILES rq ''document'' = None \<Longrightarrow>
   post e w rq =
     (Inr \<lparr>status_code = 400, data = [(''error'', PStr ''No document provided'')]\<rparr>, w)"
  by (simp add: post_def)

theorem post_without_document_witness:
  "FILES \<lparr>FILES = [''photo'' \<mapsto> upload_a]\<rparr> ''document'' = None \<and>
   post env_ok init_world \<lparr>FILES = [''photo'' \<mapsto> upload_a]\<rparr> =
     (Inr \<lparr>status_code = 400, data = [(''error'', PStr ''No document provided'')]\<rparr>, init_world)"
proof -
  have h: "FILES \<lparr>FILES = [''photo'' \<mapsto> upload_a]\<rparr> ''document'' = None" by simp
  show ?thesis using h post_without_document [OF h] by simp
qed

section \<open>The worker, case by case\<close>

lemma except_handler_Some:
  "except_handler e (Some job) x w =
     (case save_failed_error e of
        Some msg \<Rightarrow> (Raised (LibraryError msg), w)
      | None \<Rightarrow> (Returned, write_row (as_failed x job) w))"
  by (simp add: except_handler_def save_def as_failed_def Let_def split: option.splits)

lemma ForgeryDetector_init_eq:
  "ForgeryDetector_init e w =
     (case keras_load_model e ''models/forgery_detection_model.h5'' of
        Inl x \<Rightarrow> Inl x
      | Inr m \<Rightarrow> Inr \<lparr>model = m\<rparr>, loaded w)"
  by (simp add: ForgeryDetector_init_def load_model_def loaded_def split: sum.splits)

lemma objects_get_Inr:
  "objects_get e w i = Inr j \<longleftrightarrow> (\<exists>u. to_python e i = Some u \<and> db w u = Some j)"
  by (auto simp: objects_get_def split: option.splits)

lemma worker_unknown:
  "objects_get e w jid = Inl x \<Longrightarrow>
   process_document_verification e w jid = (Raised UnboundLocalError, w)"
  by (simp add: process_document_verification_def except_handler_def)

lemma worker_cases:
  assumes run: "process_document_verification e w jid = (out, w')"
    and row: "objects_get e w jid = Inr j"
  shows "w' = w \<or>
     (\<exists>x. w' = write_row (as_failed x (j\<lparr>status := Processing\<rparr>)) w) \<or>
     w' = loaded (write_row (j\<lparr>status := Processing\<rparr>) w) \<or>
     (\<exists>x. w' = write_row (as_failed x (j\<lparr>status := Processing\<rparr>))
                  (loaded (write_row (j\<lparr>status := Processing\<rparr>) w))) \<or>
     (\<exists>x m results score.
         keras_load_model e ''models/forgery_detection_model.h5'' = Inr m \<and>
         detect_forgery e \<lparr>model = m\<rparr> (file_path j) = Inr results \<and>
         map_of results ''confidence_score'' = Some score \<and>
         w' = write_row (as_failed x (as_completed score results (timezone_now e) j))
                  (loaded (write_row (j\<lparr>status := Processing\<rparr>) w))) \<or>
     (\<exists>m results score.
         keras_load_model e ''models/forgery_detection_model.h5'' = Inr m \<and>
         detect_forgery e \<lparr>model = m\<rparr> (file_path j) = Inr results \<and>
         map_of results ''confidence_score'' = Some score \<and>
         w' = write_row (as_completed score results (timezone_now e) j)
                  (loaded (write_row (j\<lparr>status := Processing\<rparr>) w)))"
  using run
  apply (auto simp add: process_document_verification_def row Let_def save_def
      except_handler_Some dict_getitem_def as_completed_def [symmetric]
      ForgeryDetector_init_eq
      split: option.splits sum.splits prod.splits)
  done

section \<open>The invariant of the reachable states\<close>

lemma status_history_write_row:
  "status_history (write_row job w) i =
     status_history w i @ (if job_id job = i then [status job] else [])"
  by (simp add: status_history_def write_row_def)

lemma status_history_loaded: "status_history (loaded w) i = status_history w i"
  by (simp add: status_history_def loaded_def)

lemma db_write_row: "db (write_row job w) = (db w)(job_id job \<mapsto> job)"
  by (simp add: write_row_def)

lemma db_loaded: "db (loaded w) = db w"
  by (simp add: loaded_def)

lemma queue_write_row: "queue (write_row job w) = queue w"
  by (simp add: write_row_def)

lemma queue_loaded: "queue (loaded w) = queue w"
  by (simp add: loaded_def)

lemma written_write_row: "written (write_row job w) = written w @ [job]"
  by (simp add: write_row_def)

lemma written_loaded: "written (loaded w) = written w"
  by (simp add: loaded_def)

lemmas world_simps = status_history_write_row status_history_loaded db_write_row db_loaded
  queue_write_row queue_loaded written_write_row written_loaded

lemma row_ok_processing: "row_ok (j\<lparr>status := Processing\<rparr>)"
  by (simp add: row_ok_def)

lemma row_ok_failed: "row_ok (as_failed x j)"
  by (simp add: row_ok_def failed_row_def as_failed_def)

lemma row_ok_completed:
  "detect_forgery e self (file_path j) = Inr results \<Longrightarrow>
   map_of results ''confidence_score'' = Some score \<Longrightarrow>
   row_ok (as_completed score results t j)"
  by (auto simp: row_ok_def completed_row_def as_completed_def)

lemma as_simps:
  "job_id (as_failed x j) = job_id j" "status (as_failed x j) = Failed"
  "job_id (as_completed sc rs t j) = job_id j" "status (as_completed sc rs t j) = Completed"
  by (simp_all add: as_failed_def as_completed_def)

text \<open>What one run on a stored job writes.\<close>

lemma worker_effect:
  assumes run: "process_document_verification e w jid = (out, w')"
    and row: "objects_get e w jid = Inr j"
  shows "\<exists>ws. written w' = written w @ ws \<and>
           queue w' = queue w \<and>
           db w' = (if ws = [] then db w else (db w)(job_id j \<mapsto> last ws)) \<and>
           (\<forall>x\<in>set ws. job_id x = job_id j \<and> row_ok x) \<and> worker_writes (map status ws)"
proof -
  let ?j1 = "j\<lparr>status := Processing\<rparr>"
  have j1: "job_id ?j1 = job_id j" "row_ok ?j1" "status ?j1 = Processing"
    by (simp_all add: row_ok_processing)
  note cases = worker_cases [OF run row]
  show ?thesis
    using cases
  proof (elim disjE exE conjE)
    assume "w' = w"
    then show ?thesis
      by (intro exI [of _ "[]"]) (simp add: worker_writes_def)
  next
    fix x assume "w' = write_row (as_failed x ?j1) w"
    then show ?thesis
      using j1 by (intro exI [of _ "[as_failed x ?j1]"])
        (simp add: world_simps worker_writes_def row_ok_failed as_simps)
  next
    assume "w' = loaded (write_row ?j1 w)"
    then show ?thesis
      using j1 by (intro exI [of _ "[?j1]"]) (simp add: world_simps worker_writes_def)
  next
    fix x assume "w' = write_row (as_failed x ?j1) (loaded (write_row ?j1 w))"
    then show ?thesis
      using j1 by (intro exI [of _ "[?j1, as_failed x ?j1]"])
        (simp add: world_simps worker_writes_def row_ok_failed as_simps)
  next
    fix x m results score
    assume w': "w' = write_row (as_failed x (as_completed score results (timezone_now e) j))
                     (loaded (write_row ?j1 w))"
    show ?thesis
      using j1 w'
      by (intro exI [of _ "[?j1, as_failed x (as_completed score results (timezone_now e) j)]"])
        (simp add: world_simps worker_writes_def row_ok_failed as_simps)
  next
    fix m results score
    assume d: "detect_forgery e \<lparr>model = m\<rparr> (file_path j) = Inr results"
      "map_of results ''confidence_score'' = Some score"
      and w': "w' = write_row (as_completed score results (timezone_now e) j)
                     (loaded (write_row ?j1 w))"
    show ?thesis
      using j1 w' row_ok_completed [OF d]
      by (intro exI [of _ "[?j1, as_completed score results (timezone_now e) j]"])
        (simp add: world_simps worker_writes_def as_simps)
  qed
qed

lemma status_history_append:
  assumes "written w' = written w @ ws" "\<forall>x\<in>set ws. job_id x = k"
  shows "status_history w' i = status_history w i @ (if i = k then map status ws else [])"
proof -
  have "filter (\<lambda>j. job_id j = i) ws = (if i = k then ws else [])"
    using assms(2) by (induction ws) auto
  then show ?thesis using assms(1) by (simp add: status_history_def)
qed

lemma status_history_enqueued: "status_history (enqueued i w) k = status_history w k"
  by (simp add: status_history_def enqueued_def)

lemma db_enqueued: "db (enqueued i w) = db w"
  by (simp add: enqueued_def)

lemma written_enqueued: "written (enqueued i w) = written w"
  by (simp add: enqueued_def)

lemma new_job_simps:
  "job_id (new_job e h p) = uuid4 e" "status (new_job e h p) = Pending"
  "row_ok (new_job e h p)"
  by (simp_all add: new_job_def row_ok_def fresh_row_def)

lemma post_cases:
  assumes "post e w rq = (r, w')"
  shows "w' = w \<or>
     (\<exists>h p. db w (uuid4 e) = None \<and>
        (w' = write_row (new_job e h p) w \<or>
         w' = enqueued (uuid4 e) (write_row (new_job e h p) w)))"
  using assms
  apply (auto simp: post_def objects_create_def delay_def Let_def new_job_def [symmetric]
      new_job_simps enqueued_def [symmetric]
      split: if_splits sum.splits option.splits prod.splits)
  apply blast+
  done

lemma get_state: "get e w i = (rs, w') \<Longrightarrow> w' = w"
  by (auto simp: get_def split: sum.splits if_splits)

lemma inv_init: "inv init_world"
  by (simp add: inv_def job_inv_def init_world_def status_history_def)

lemma inv_queue: "inv (w\<lparr>queue := q\<rparr>) = inv w"
  by (simp add: inv_def job_inv_def status_history_def split: option.splits)

lemma inv_insert:
  assumes i: "inv w" and new: "db w (uuid4 e) = None"
  shows "inv (write_row (new_job e h p) w)"
    and "inv (enqueued (uuid4 e) (write_row (new_job e h p) w))"
proof -
  have a: "job_inv (write_row (new_job e h p) w) k" for k
  proof -
    have "job_inv w k" "job_inv w (uuid4 e)" using i by (simp_all add: inv_def)
    then show ?thesis using new
      by (auto simp: job_inv_def world_simps new_job_simps split: option.splits)
  qed
  then show "inv (write_row (new_job e h p) w)" by (simp add: inv_def)
  then show "inv (enqueued (uuid4 e) (write_row (new_job e h p) w))"
    by (simp add: enqueued_def inv_queue)
qed

lemma inv_post: "inv w \<Longrightarrow> post e w rq = (r, w') \<Longrightarrow> inv w'"
  using post_cases [of e w rq r w'] inv_insert by blast

lemma inv_worker:
  assumes i: "inv w" and run: "process_document_verification e w jid = (out, w')"
  shows "inv w'"
proof (cases "objects_get e w jid")
  case (Inl x)
  then show ?thesis using worker_unknown [OF Inl] run i by simp
next
  case (Inr j)
  then obtain u where u: "to_python e jid = Some u" "db w u = Some j"
    by (auto simp: objects_get_Inr)
  have ju: "job_inv w u" using i by (simp add: inv_def)
  then have id: "job_id j = u" and h: "status_history w u \<noteq> []"
    using u(2) by (simp_all add: job_inv_def)
  obtain ws where ws:
    "written w' = written w @ ws"
    "db w' = (if ws = [] then db w else (db w)(u \<mapsto> last ws))"
    "\<forall>x\<in>set ws. job_id x = u \<and> row_ok x"
    using worker_effect [OF run Inr] unfolding id by blast
  have sh: "status_history w' k = status_history w k @ (if k = u then map status ws else [])"
    for k
    using status_history_append [OF ws(1), of u k] ws(3) by simp
  have "job_inv w' k" for k
  proof -
    have old: "job_inv w k" using i by (simp add: inv_def)
    show ?thesis
    proof (cases "k = u \<and> ws \<noteq> []")
      case True
      then have "last ws \<in> set ws" by simp
      then show ?thesis using True ws(3)
        by (simp add: job_inv_def sh ws(2) last_map)
    next
      case False
      then show ?thesis using old
        by (auto simp: job_inv_def sh ws(2) split: option.splits)
    qed
  qed
  then show ?thesis by (simp add: inv_def)
qed

lemma inv_step: "inv w \<Longrightarrow> step w w' \<Longrightarrow> inv w'"
proof (erule step.cases)
  fix e wa rq r wb
  assume "inv w" "w = wa" "w' = wb" "post e wa rq = (r, wb)"
  then show "inv w'" using inv_post by blast
next
  fix e wa i rs wb
  assume "inv w" "w = wa" "w' = wb" "get e wa i = (rs, wb)"
  then show "inv w'" using get_state by blast
next
  fix jid wa e ack out wb
  assume a: "inv w" "w = wa" "w' = wb"
    "process_document_verification e (if ack then take_job jid wa else wa) jid = (out, wb)"
  have "inv (if ack then take_job jid wa else wa)"
    using a(1,2) by (simp add: take_job_def inv_queue)
  then show "inv w'" using a(3,4) inv_worker by blast
qed

lemma reachable_inv: "reachable w \<Longrightarrow> inv w"
  by (induction rule: reachable.induct) (auto intro: inv_init inv_step)

section \<open>The concrete states\<close>

lemmas run_defs = process_document_verification_def objects_get_def save_def write_row_def
  ForgeryDetector_init_def load_model_def except_handler_def dict_getitem_def
  detect_forgery_def preprocess_image_def cv2_resize_def first_output_def
  get_detailed_analysis_def take_job_def Let_def parse_uuid_examples

lemmas env_defs = env_ok_def env_late_failure_def env_early_failure_def env_no_model_def
  env_wide_def env_second_def

lemma ids_distinct: "id_1 \<noteq> id_2" "id_2 \<noteq> id_1" "id_1 \<noteq> id_3" "id_2 \<noteq> id_3"
  by (simp_all add: id_1_def id_2_def id_3_def)

lemma world_posted_eq:
  "world_posted =
     \<lparr>db = [id_1 \<mapsto> job_a], queue = [id_1], loads = 0, written = [job_a]\<rparr>"
  by (simp add: world_posted_def post_def request_a_def upload_a_def env_ok_def
      objects_create_def delay_def write_row_def init_world_def job_a_def Let_def)

lemma world_after_ok:
  "world_after env_ok =
     \<lparr>db = [id_1 \<mapsto>
        job_a\<lparr>status := Completed, confidence_score := PFloat (Fin 0.7),
          analysis_results := PDict
            [(''is_authentic'', PBool True), (''confidence_score'', PFloat (Fin 0.7)),
             (''analysis_details'', PDict [(''font_consistency'', PStr ''consistent''),
                (''pixel_analysis'', PStr ''clean''), (''compression_artifacts'', PBool False)])],
          completed_at := Some 5\<rparr>],
      queue = [], loads = 1,
      written = [job_a, job_a\<lparr>status := Processing\<rparr>,
        job_a\<lparr>status := Completed, confidence_score := PFloat (Fin 0.7),
          analysis_results := PDict
            [(''is_authentic'', PBool True), (''confidence_score'', PFloat (Fin 0.7)),
             (''analysis_details'', PDict [(''font_consistency'', PStr ''consistent''),
                (''pixel_analysis'', PStr ''clean''), (''compression_artifacts'', PBool False)])],
          completed_at := Some 5\<rparr>]\<rparr>"
  by (simp add: world_after_def world_posted_eq run_defs env_defs job_a_def
      del: upt_rec_numeral)

lemma world_after_late_failure:
  "world_after env_late_failure =
     \<lparr>db = [id_1 \<mapsto>
        job_a\<lparr>status := Failed, confidence_score := PFloat (Fin 0.7),
          analysis_results := PDict
            [(''error'', PStr ''Object of type ndarray is not JSON serializable'')],
          completed_at := Some 5\<rparr>],
      queue = [], loads = 1,
      written = [job_a, job_a\<lparr>status := Processing\<rparr>,
        job_a\<lparr>status := Failed, confidence_score := PFloat (Fin 0.7),
          analysis_results := PDict
            [(''error'', PStr ''Object of type ndarray is not JSON serializable'')],
          completed_at := Some 5\<rparr>]\<rparr>"
  by (simp add: world_after_def world_posted_eq run_defs env_defs job_a_def
      del: upt_rec_numeral)

lemma world_after_early_failure:
  "world_after env_early_failure =
     \<lparr>db = [id_1 \<mapsto>
        job_a\<lparr>status := Failed,
          analysis_results := PDict [(''error'', PStr ''database is locked'')]\<rparr>],
      queue = [], loads = 0,
      written = [job_a,
        job_a\<lparr>status := Failed,
          analysis_results := PDict [(''error'', PStr ''database is locked'')]\<rparr>]\<rparr>"
  by (simp add: world_after_def world_posted_eq run_defs env_defs job_a_def
      del: upt_rec_numeral)

lemma world_after_no_model:
  "world_after env_no_model =
     \<lparr>db = [id_1 \<mapsto>
        job_a\<lparr>status := Failed,
          analysis_results := PDict [(''error'',
            PStr ''No file or directory found at models/forgery_detection_model.h5'')]\<rparr>],
      queue = [], loads = 1,
      written = [job_a, job_a\<lparr>status := Processing\<rparr>,
        job_a\<lparr>status := Failed,
          analysis_results := PDict [(''error'',
            PStr ''No file or directory found at models/forgery_detection_model.h5'')]\<rparr>]\<rparr>"
  by (simp add: world_after_def world_posted_eq run_defs env_defs job_a_def
      del: upt_rec_numeral)

lemma world_after_wide:
  "db (world_after env_wide) id_1 = Some
        (job_a\<lparr>status := Completed, confidence_score := PFloat (Fin 1.5),
          analysis_results := PDict
            [(''is_authentic'', PBool True), (''confidence_score'', PFloat (Fin 1.5)),
             (''analysis_details'', PDict [(''font_consistency'', PStr ''consistent''),
                (''pixel_analysis'', PStr ''clean''), (''compression_artifacts'', PBool False)])],
          completed_at := Some 5\<rparr>)"
  by (simp add: world_after_def world_posted_eq run_defs env_defs job_a_def
      del: upt_rec_numeral)

lemma history_redelivered:
  "status_history world_redelivered id_1 =
     [Pending, Processing, Completed, Processing, Completed]"
  by (simp add: world_redelivered_def world_unacked_def world_posted_eq run_defs env_defs
      job_a_def status_history_def del: upt_rec_numeral)

lemma reachable_posted: "reachable world_posted"
  unfolding world_posted_def
  by (rule reach_step [OF reach_init]) (rule step_post [OF prod.collapse [symmetric]])

lemma step_after: "step world_posted (world_after e)"
proof -
  have q: "id_1 \<in> set (queue world_posted)" by (simp add: world_posted_eq)
  have "process_document_verification e
          (if True then take_job id_1 world_posted else world_posted) id_1 =
        (fst (process_document_verification e (take_job id_1 world_posted) id_1),
         world_after e)"
    by (simp add: world_after_def)
  then show ?thesis by (rule step_work [OF q])
qed

lemma reachable_after: "reachable (world_after e)"
  by (rule reach_step [OF reachable_posted step_after])

lemma reachable_redelivered: "reachable world_redelivered"
proof -
  have q: "id_1 \<in> set (queue world_posted)" by (simp add: world_posted_eq)
  have "process_document_verification env_ok
          (if False then take_job id_1 world_posted else world_posted) id_1 =
        (fst (process_document_verification env_ok world_posted id_1), world_unacked)"
    by (simp add: world_unacked_def)
  then have s1: "step world_posted world_unacked" by (rule step_work [OF q])
  have q2: "id_1 \<in> set (queue world_unacked)"
    by (simp add: world_unacked_def world_posted_eq run_defs env_defs job_a_def
        del: upt_rec_numeral)
  have "process_document_verification env_ok
          (if True then take_job id_1 world_unacked else world_unacked) id_1 =
        (fst (process_document_verification env_ok (take_job id_1 world_unacked) id_1),
         world_redelivered)"
    by (simp add: world_redelivered_def)
  then have s2: "step world_unacked world_redelivered" by (rule step_work [OF q2])
  show ?thesis
    by (rule reach_step [OF reach_step [OF reachable_posted s1] s2])
qed

lemma loads_two_done: "loads world_two_done = 2"
  by (simp add: world_two_done_def world_two_posted_def world_posted_eq post_def request_a_def
      upload_a_def objects_create_def delay_def init_world_def job_a_def Let_def
      run_defs env_defs ids_distinct del: upt_rec_numeral)

section \<open>Properties of the worker\<close>

lemma detect_forgery_keys:
  "detect_forgery e self p = Inr results \<Longrightarrow>
   \<exists>b c d. results = [(''is_authentic'', PBool b), (''confidence_score'', PFloat c),
                      (''analysis_details'', PDict d)]"
  by (auto simp: detect_forgery_def split: sum.splits)

text \<open>
  When the job is found and the handler's save succeeds, the worker returns, and the
  row it leaves is completed, or failed with an error description.
\<close>

lemma worker_returns:
  "objects_get e w jid = Inr j \<Longrightarrow> save_failed_error e = None \<Longrightarrow>
   fst (process_document_verification e w jid) = Returned"
  by (simp add: process_document_verification_def save_def Let_def
      except_handler_Some ForgeryDetector_init_eq
      split: option.splits sum.splits prod.splits)

lemma worker_records_outcome:
  assumes "objects_get e w jid = Inr j" "save_failed_error e = None"
    and "process_document_verification e w jid = (out, w')"
  shows "\<exists>j'. db w' (job_id j) = Some j' \<and>
           (status j' = Completed \<or> status j' = Failed \<and> failed_row j')"
  using assms
  by (auto simp: process_document_verification_def save_def Let_def
      except_handler_def ForgeryDetector_init_eq db_write_row db_loaded failed_row_def
      split: option.splits sum.splits prod.splits)

text \<open>
  In every reachable state a completed row has its score and its completion time, and
  a pending row has neither.
\<close>

lemma result_fields_by_status:
  assumes "reachable w" "db w i = Some j"
  shows "(status j = Completed \<longrightarrow> confidence_score j \<noteq> PNone \<and> completed_at j \<noteq> None) \<and>
         (status j = Pending \<longrightarrow> confidence_score j = PNone \<and> completed_at j = None)"
proof -
  have "job_inv w i" using reachable_inv [OF assms(1)] by (simp add: inv_def)
  then have ok: "row_ok j" using assms(2) by (simp add: job_inv_def)
  have "status j = Completed \<Longrightarrow> confidence_score j \<noteq> PNone \<and> completed_at j \<noteq> None"
    using ok detect_forgery_keys by (fastforce simp: row_ok_def completed_row_def)
  moreover have "status j = Pending \<Longrightarrow> confidence_score j = PNone \<and> completed_at j = None"
    using ok by (auto simp: row_ok_def fresh_row_def)
  ultimately show ?thesis by blast
qed

text \<open>
  C1. The claim fails on the code. For an id with no row, the lookup at line 10
  raises, the handler reads the local variable \<open>job\<close> that was never bound, and the
  resulting exception leaves the worker with nothing recorded. An exception raised by
  the handler's own save leaves the worker too.
\<close>

theorem worker_unknown_job_raises:
  "process_document_verification env_ok init_world ''job-9'' =
     (Raised UnboundLocalError, init_world) \<and>
   process_document_verification env_ok init_world id_3 =
     (Raised UnboundLocalError, init_world) \<and>
   fst (process_document_verification
          (env_no_model\<lparr>save_failed_error := Some ''database is locked''\<rparr>)
          (take_job id_1 world_posted) id_1) =
     Raised (LibraryError ''database is locked'')"
  by (simp add: world_posted_eq run_defs env_defs init_world_def job_a_def)

text \<open>
  C3. The claim fails on the code. When the save at line 21 raises, the object
  already carries the score and the completion time, and the handler writes it with
  the status failed: the stored job is failed with both fields set.
\<close>

theorem failed_job_keeps_score:
  "reachable (world_after env_late_failure) \<and>
   map_option (\<lambda>j. (status j, confidence_score j, completed_at j))
     (db (world_after env_late_failure) id_1) =
     Some (Failed, PFloat (Fin 0.7), Some 5)"
  using reachable_after [of env_late_failure]
  by (simp add: world_after_late_failure job_a_def)

section \<open>The statuses a step writes\<close>

lemma worker_history:
  assumes run: "process_document_verification e w jid = (out, w')" and i: "inv w"
  shows "\<exists>hs. status_history w' i = status_history w i @ hs \<and>
           (hs = [] \<or> status_history w i \<noteq> [] \<and> worker_writes hs)"
proof (cases "objects_get e w jid")
  case (Inl x)
  then show ?thesis using worker_unknown [OF Inl] run by simp
next
  case (Inr j)
  then obtain u where u: "to_python e jid = Some u" "db w u = Some j"
    by (auto simp: objects_get_Inr)
  have "job_inv w u" using i by (simp add: inv_def)
  then have id: "job_id j = u" and h: "status_history w u \<noteq> []"
    using u(2) by (simp_all add: job_inv_def)
  obtain ws where ws:
    "written w' = written w @ ws" "\<forall>x\<in>set ws. job_id x = u \<and> row_ok x"
    "worker_writes (map status ws)"
    using worker_effect [OF run Inr] unfolding id by blast
  have "status_history w' i = status_history w i @ (if i = u then map status ws else [])"
    using status_history_append [OF ws(1), of u i] ws(2) by simp
  then show ?thesis using h ws(3) by auto
qed

lemma post_history:
  assumes p: "post e w rq = (r, w')" and i: "inv w"
  shows "\<exists>hs. status_history w' i = status_history w i @ hs \<and>
           (hs = [] \<or> status_history w i = [] \<and> hs = [Pending])"
proof -
  have n: "db w k = None \<Longrightarrow> status_history w k = []" for k
  proof -
    assume k: "db w k = None"
    have "job_inv w k" using i by (simp add: inv_def)
    then show ?thesis using k by (simp add: job_inv_def)
  qed
  show ?thesis
    using post_cases [OF p] n [of "uuid4 e"]
    by (elim disjE exE conjE)
      (auto simp: world_simps status_history_enqueued new_job_simps)
qed

lemma step_history:
  assumes s: "step w w'" and i: "inv w"
  shows "\<exists>hs. status_history w' i = status_history w i @ hs \<and>
           (hs = [] \<or> status_history w i = [] \<and> hs = [Pending] \<or>
            status_history w i \<noteq> [] \<and> worker_writes hs)"
  using s
proof (cases rule: step.cases)
  case (step_post e rq r)
  then show ?thesis using post_history [OF _ i, of e rq r w' i] by blast
next
  case (step_get e k rs)
  then show ?thesis using get_state by fastforce
next
  case (step_work jid e ack out)
  let ?w = "if ack then take_job jid w else w"
  have "inv ?w" using i by (simp add: take_job_def inv_queue)
  moreover have "status_history ?w i = status_history w i"
    by (simp add: take_job_def status_history_def)
  ultimately show ?thesis using worker_history [OF step_work(2), of i] by auto
qed

text \<open>
  C4, as amended. From a reachable state, a step of the view or the worker leaves the
  statuses already written to a job's row in place and adds to them nothing; or
  pending, when the row is created; or what one run of the worker writes to a stored
  job: processing, processing then completed, processing then failed, or failed alone
  (the save at line 12 raised). The row holds the last status written. So within a
  run the status moves forward, and a job that was pending and never run before ends
  in one of the histories pending; pending, processing; pending, processing,
  completed; pending, processing, failed; pending, failed. The worker does not read
  the status it finds, so a second delivery of a job writes processing again over
  completed or failed.
\<close>

theorem status_history_steps:
  "reachable w \<Longrightarrow> step w w' \<Longrightarrow>
   (\<exists>hs. status_history w' i = status_history w i @ hs \<and>
      (hs = [] \<or>
       status_history w i = [] \<and> hs = [Pending] \<or>
       status_history w i \<noteq> [] \<and>
         hs \<in> {[Processing], [Processing, Completed], [Processing, Failed], [Failed]})) \<and>
   (case db w' i of
      None \<Rightarrow> status_history w' i = []
    | Some j \<Rightarrow> status_history w' i \<noteq> [] \<and> last (status_history w' i) = status j) \<and>
   (status_history w i = [Pending] \<longrightarrow> allowed_history (status_history w' i))"
proof -
  assume r: "reachable w" and s: "step w w'"
  have i: "inv w" using reachable_inv [OF r] .
  have "job_inv w' i" using inv_step [OF i s] by (simp add: inv_def)
  then have b: "case db w' i of
      None \<Rightarrow> status_history w' i = []
    | Some j \<Rightarrow> status_history w' i \<noteq> [] \<and> last (status_history w' i) = status j"
    by (auto simp: job_inv_def split: option.splits)
  obtain hs where hs: "status_history w' i = status_history w i @ hs"
    "hs = [] \<or> status_history w i = [] \<and> hs = [Pending] \<or>
            status_history w i \<noteq> [] \<and> worker_writes hs"
    using step_history [OF s i] by blast
  have a: "\<exists>hs. status_history w' i = status_history w i @ hs \<and>
      (hs = [] \<or>
       status_history w i = [] \<and> hs = [Pending] \<or>
       status_history w i \<noteq> [] \<and>
         hs \<in> {[Processing], [Processing, Completed], [Processing, Failed], [Failed]})"
    using hs by (intro exI [of _ hs]) (auto simp: worker_writes_def)
  have c: "status_history w i = [Pending] \<longrightarrow> allowed_history (status_history w' i)"
    using hs by (auto simp: worker_writes_def allowed_history_def)
  show ?thesis using a b c by blast
qed

theorem status_history_steps_witness:
  "reachable world_posted \<and> step world_posted (world_after env_ok) \<and>
   status_history world_posted id_1 = [Pending] \<and>
   status_history (world_after env_ok) id_1 = [Pending, Processing, Completed] \<and>
   (\<exists>hs. status_history (world_after env_ok) id_1 = status_history world_posted id_1 @ hs \<and>
      (hs = [] \<or>
       status_history world_posted id_1 = [] \<and> hs = [Pending] \<or>
       status_history world_posted id_1 \<noteq> [] \<and>
         hs \<in> {[Processing], [Processing, Completed], [Processing, Failed], [Failed]})) \<and>
   allowed_history (status_history (world_after env_ok) id_1)"
proof -
  have h: "status_history world_posted id_1 = [Pending]"
    "status_history (world_after env_ok) id_1 = [Pending, Processing, Completed]"
    by (simp_all add: world_posted_eq world_after_ok status_history_def job_a_def)
  show ?thesis
    using h reachable_posted step_after [of env_ok]
      status_history_steps [OF reachable_posted step_after, of env_ok id_1]
    by blast
qed

text \<open>
  C4 as stated fails. When the save at line 12 raises and the handler's save succeeds,
  the row goes from pending to failed and is never processing. When a finished job is
  delivered a second time, the worker writes processing over completed.
\<close>

theorem status_skips_processing:
  "reachable (world_after env_early_failure) \<and>
   status_history (world_after env_early_failure) id_1 = [Pending, Failed] \<and>
   reachable world_redelivered \<and>
   status_history world_redelivered id_1 =
     [Pending, Processing, Completed, Processing, Completed]"
  using reachable_after [of env_early_failure] reachable_redelivered history_redelivered
  by (simp add: world_after_early_failure status_history_def job_a_def)

section \<open>What a completed job stores\<close>

lemma stored_written_step:
  assumes "\<forall>i j. db w i = Some j \<longrightarrow> j \<in> set (written w)"
  shows "\<forall>i j. db (write_row job w) i = Some j \<longrightarrow> j \<in> set (written (write_row job w))"
    and "\<forall>i j. db (loaded w) i = Some j \<longrightarrow> j \<in> set (written (loaded w))"
    and "\<forall>i j. db (enqueued k w) i = Some j \<longrightarrow> j \<in> set (written (enqueued k w))"
    and "\<forall>i j. db (w\<lparr>queue := q\<rparr>) i = Some j \<longrightarrow> j \<in> set (written (w\<lparr>queue := q\<rparr>))"
  using assms
  by (auto simp: write_row_def loaded_def enqueued_def)

lemma stored_written_worker:
  assumes run: "process_document_verification e w jid = (out, w')"
    and old: "\<forall>i j. db w i = Some j \<longrightarrow> j \<in> set (written w)"
  shows "\<forall>i j. db w' i = Some j \<longrightarrow> j \<in> set (written w')"
proof (cases "objects_get e w jid")
  case (Inl x)
  then show ?thesis using worker_unknown [OF Inl] run old by simp
next
  case (Inr j)
  show ?thesis
    using worker_cases [OF run Inr]
    by (elim disjE exE conjE) (simp_all add: old stored_written_step)
qed

lemma stored_written:
  "reachable w \<Longrightarrow> \<forall>i j. db w i = Some j \<longrightarrow> j \<in> set (written w)"
proof (induction rule: reachable.induct)
  case reach_init
  then show ?case by (simp add: init_world_def)
next
  case (reach_step w w')
  from reach_step(2) show ?case
  proof (cases rule: step.cases)
    case (step_post e rq r)
    show ?thesis
      using post_cases [OF step_post]
      by (elim disjE exE conjE) (simp_all add: reach_step.IH stored_written_step)
  next
    case (step_get e k rs)
    then show ?thesis using get_state reach_step.IH by blast
  next
    case (step_work jid e ack out)
    have "\<forall>i j. db (if ack then take_job jid w else w) i = Some j \<longrightarrow>
              j \<in> set (written (if ack then take_job jid w else w))"
      using reach_step.IH by (simp add: take_job_def)
    then show ?thesis using stored_written_worker [OF step_work(2)] by blast
  qed
qed

lemma completed_write:
  assumes run: "process_document_verification e w jid = (out, w')"
    and ws: "written w' = written w @ ws" "j' \<in> set ws" "status j' = Completed"
  shows "\<exists>j m results.
          objects_get e w jid = Inr j \<and>
          keras_load_model e ''models/forgery_detection_model.h5'' = Inr m \<and>
          detect_forgery e \<lparr>model = m\<rparr> (file_path j) = Inr results \<and>
          analysis_results j' = PDict results \<and>
          map_of results ''confidence_score'' = Some (confidence_score j') \<and>
          job_id j' = job_id j \<and> db w' (job_id j) = Some j'"
proof (cases "objects_get e w jid")
  case (Inl x)
  then show ?thesis using worker_unknown [OF Inl] run ws by simp
next
  case (Inr j)
  show ?thesis
    using worker_cases [OF run Inr] ws
  proof (elim disjE exE conjE)
    fix m results score
    assume d: "keras_load_model e ''models/forgery_detection_model.h5'' = Inr m"
      "detect_forgery e \<lparr>model = m\<rparr> (file_path j) = Inr results"
      "map_of results ''confidence_score'' = Some score"
      and w': "w' = write_row (as_completed score results (timezone_now e) j)
                     (loaded (write_row (j\<lparr>status := Processing\<rparr>) w))"
    have "ws = [j\<lparr>status := Processing\<rparr>, as_completed score results (timezone_now e) j]"
      using ws(1) w' by (simp add: world_simps)
    then have "j' = as_completed score results (timezone_now e) j"
      using ws(2,3) by auto
    then show ?thesis
      using Inr d w' by (simp add: as_completed_def world_simps)
  qed (auto simp: world_simps as_simps)
qed

lemma post_written_pending:
  assumes p: "post e w rq = (r, w')" and ws: "written w' = written w @ ws" "j' \<in> set ws"
  shows "status j' = Pending"
  using post_cases [OF p] ws
  by (elim disjE exE conjE) (auto simp: world_simps written_enqueued new_job_simps)

lemma worker_written:
  assumes "process_document_verification e w jid = (out, w')"
  shows "\<exists>ws. written w' = written w @ ws"
proof (cases "objects_get e w jid")
  case (Inl x)
  then show ?thesis using worker_unknown [OF Inl] assms by simp
next
  case (Inr j)
  then show ?thesis using worker_effect [OF assms Inr] by blast
qed

lemma post_written:
  assumes "post e w rq = (r, w')"
  shows "\<exists>ws. written w' = written w @ ws"
  using post_cases [OF assms]
  by (elim disjE exE conjE) (simp_all add: world_simps written_enqueued)

text \<open>Every completed row that was ever written was written by a run of the worker.\<close>

lemma completed_written_by_run:
  "reachable w \<Longrightarrow> j' \<in> set (written w) \<Longrightarrow> status j' = Completed \<Longrightarrow>
   \<exists>e w0 jid out w1 ws.
      process_document_verification e w0 jid = (out, w1) \<and>
      written w1 = written w0 @ ws \<and> j' \<in> set ws"
proof (induction rule: reachable.induct)
  case reach_init
  then show ?case by (simp add: init_world_def)
next
  case (reach_step w w')
  from reach_step(2) show ?case
  proof (cases rule: step.cases)
    case (step_post e rq r)
    obtain ws where ws: "written w' = written w @ ws" using post_written [OF step_post] by blast
    have "j' \<notin> set ws"
      using post_written_pending [OF step_post ws] reach_step.prems(2) by auto
    then have "j' \<in> set (written w)" using reach_step.prems(1) ws by simp
    then show ?thesis using reach_step.IH reach_step.prems(2) by blast
  next
    case (step_get e k rs)
    then have "w' = w" using get_state by blast
    then show ?thesis using reach_step.IH reach_step.prems by blast
  next
    case (step_work jid e ack out)
    let ?w0 = "if ack then take_job jid w else w"
    obtain ws where ws: "written w' = written ?w0 @ ws"
      using worker_written [OF step_work(2)] by blast
    have w0: "written ?w0 = written w" by (simp add: take_job_def)
    show ?thesis
    proof (cases "j' \<in> set ws")
      case True
      then show ?thesis using step_work(2) ws by blast
    next
      case False
      then have "j' \<in> set (written w)" using reach_step.prems(1) ws w0 by simp
      then show ?thesis using reach_step.IH reach_step.prems(2) by blast
    qed
  qed
qed

text \<open>
  C10. Whenever a run of the worker writes a row with the status completed, that row
  is the row now stored for the job, and its \<open>analysis_results\<close> is the whole
  dictionary that \<open>detect_forgery\<close> returned in this run, for the job's file and with
  the model loaded in this run: it has the keys \<open>is_authentic\<close> and
  \<open>confidence_score\<close>, and its \<open>confidence_score\<close> entry is the value of the row's
  \<open>confidence_score\<close> column. No other code writes a completed row: \<open>post\<close> writes
  pending rows only, and in every reachable state a stored row with the status
  completed is a row that some run of the worker wrote.
\<close>

theorem completed_job_stores_result:
  "(process_document_verification e w jid = (out, w') \<and> written w' = written w @ ws \<and>
    j' \<in> set ws \<and> status j' = Completed \<longrightarrow>
      (\<exists>j m results.
          objects_get e w jid = Inr j \<and>
          keras_load_model e ''models/forgery_detection_model.h5'' = Inr m \<and>
          detect_forgery e \<lparr>model = m\<rparr> (file_path j) = Inr results \<and>
          analysis_results j' = PDict results \<and>
          map_of results ''is_authentic'' \<noteq> None \<and>
          map_of results ''confidence_score'' = Some (confidence_score j') \<and>
          job_id j' = job_id j \<and> db w' (job_id j) = Some j')) \<and>
   (post e w rq = (r, w') \<and> written w' = written w @ ws \<and> j' \<in> set ws \<longrightarrow>
      status j' = Pending) \<and>
   (reachable w \<and> db w i = Some j' \<and> status j' = Completed \<longrightarrow>
      (\<exists>e0 w0 jid0 out0 w1 ws0.
          process_document_verification e0 w0 jid0 = (out0, w1) \<and>
          written w1 = written w0 @ ws0 \<and> j' \<in> set ws0))"
proof (intro conjI impI)
  assume a: "process_document_verification e w jid = (out, w') \<and>
    written w' = written w @ ws \<and> j' \<in> set ws \<and> status j' = Completed"
  then obtain j m results where d:
    "objects_get e w jid = Inr j"
    "keras_load_model e ''models/forgery_detection_model.h5'' = Inr m"
    "detect_forgery e \<lparr>model = m\<rparr> (file_path j) = Inr results"
    "analysis_results j' = PDict results"
    "map_of results ''confidence_score'' = Some (confidence_score j')"
    "job_id j' = job_id j" "db w' (job_id j) = Some j'"
    using completed_write [of e w jid out w' ws j'] by blast
  obtain b c dd where "results = [(''is_authentic'', PBool b), (''confidence_score'', PFloat c),
                      (''analysis_details'', PDict dd)]"
    using detect_forgery_keys [OF d(3)] by blast
  then have "map_of results ''is_authentic'' \<noteq> None" by simp
  then show "\<exists>j m results.
          objects_get e w jid = Inr j \<and>
          keras_load_model e ''models/forgery_detection_model.h5'' = Inr m \<and>
          detect_forgery e \<lparr>model = m\<rparr> (file_path j) = Inr results \<and>
          analysis_results j' = PDict results \<and>
          map_of results ''is_authentic'' \<noteq> None \<and>
          map_of results ''confidence_score'' = Some (confidence_score j') \<and>
          job_id j' = job_id j \<and> db w' (job_id j) = Some j'"
    using d by blast
next
  assume a: "post e w rq = (r, w') \<and> written w' = written w @ ws \<and> j' \<in> set ws"
  then show "status j' = Pending"
    using post_written_pending [of e w rq r w' ws j'] by blast
next
  assume a: "reachable w \<and> db w i = Some j' \<and> status j' = Completed"
  then have "j' \<in> set (written w)" using stored_written by blast
  then show "\<exists>e0 w0 jid0 out0 w1 ws0.
          process_document_verification e0 w0 jid0 = (out0, w1) \<and>
          written w1 = written w0 @ ws0 \<and> j' \<in> set ws0"
    using completed_written_by_run a by blast
qed

theorem completed_job_stores_result_witness:
  "process_document_verification env_ok (take_job id_1 world_posted) id_1 =
     (Returned, world_after env_ok) \<and>
   written (world_after env_ok) =
     written (take_job id_1 world_posted) @
       [job_a\<lparr>status := Processing\<rparr>,
        job_a\<lparr>status := Completed, confidence_score := PFloat (Fin 0.7),
          analysis_results := PDict
            [(''is_authentic'', PBool True), (''confidence_score'', PFloat (Fin 0.7)),
             (''analysis_details'', PDict [(''font_consistency'', PStr ''consistent''),
                (''pixel_analysis'', PStr ''clean''), (''compression_artifacts'', PBool False)])],
          completed_at := Some 5\<rparr>] \<and>
   (\<exists>j m results.
      objects_get env_ok (take_job id_1 world_posted) id_1 = Inr j \<and>
      keras_load_model env_ok ''models/forgery_detection_model.h5'' = Inr m \<and>
      detect_forgery env_ok \<lparr>model = m\<rparr> (file_path j) = Inr results \<and>
      PDict [(''is_authentic'', PBool True), (''confidence_score'', PFloat (Fin 0.7)),
             (''analysis_details'', PDict [(''font_consistency'', PStr ''consistent''),
                (''pixel_analysis'', PStr ''clean''), (''compression_artifacts'', PBool False)])] =
        PDict results \<and>
      map_of results ''is_authentic'' \<noteq> None \<and>
      map_of results ''confidence_score'' = Some (PFloat (Fin 0.7)) \<and>
      db (world_after env_ok) (job_id j) =
        Some (job_a\<lparr>status := Completed, confidence_score := PFloat (Fin 0.7),
          analysis_results := PDict
            [(''is_authentic'', PBool True), (''confidence_score'', PFloat (Fin 0.7)),
             (''analysis_details'', PDict [(''font_consistency'', PStr ''consistent''),
                (''pixel_analysis'', PStr ''clean''), (''compression_artifacts'', PBool False)])],
          completed_at := Some 5\<rparr>))"
proof -
  let ?done = "job_a\<lparr>status := Completed, confidence_score := PFloat (Fin 0.7),
          analysis_results := PDict
            [(''is_authentic'', PBool True), (''confidence_score'', PFloat (Fin 0.7)),
             (''analysis_details'', PDict [(''font_consistency'', PStr ''consistent''),
                (''pixel_analysis'', PStr ''clean''), (''compression_artifacts'', PBool False)])],
          completed_at := Some 5\<rparr>"
  have out: "fst (process_document_verification env_ok (take_job id_1 world_posted) id_1) =
      Returned"
    by (simp add: world_posted_eq run_defs env_defs job_a_def del: upt_rec_numeral)
  have run: "process_document_verification env_ok (take_job id_1 world_posted) id_1 =
     (Returned, world_after env_ok)"
    using out by (simp add: world_after_def prod_eq_iff)
  have wr: "written (world_after env_ok) =
     written (take_job id_1 world_posted) @ [job_a\<lparr>status := Processing\<rparr>, ?done]"
    by (simp add: world_after_ok world_posted_eq take_job_def)
  have pre: "process_document_verification env_ok (take_job id_1 world_posted) id_1 =
        (Returned, world_after env_ok) \<and>
      written (world_after env_ok) =
        written (take_job id_1 world_posted) @ [job_a\<lparr>status := Processing\<rparr>, ?done] \<and>
      ?done \<in> set [job_a\<lparr>status := Processing\<rparr>, ?done] \<and> status ?done = Completed"
    using run wr by simp
  have ex: "\<exists>j m results.
      objects_get env_ok (take_job id_1 world_posted) id_1 = Inr j \<and>
      keras_load_model env_ok ''models/forgery_detection_model.h5'' = Inr m \<and>
      detect_forgery env_ok \<lparr>model = m\<rparr> (file_path j) = Inr results \<and>
      analysis_results ?done = PDict results \<and>
      map_of results ''is_authentic'' \<noteq> None \<and>
      map_of results ''confidence_score'' = Some (confidence_score ?done) \<and>
      job_id ?done = job_id j \<and> db (world_after env_ok) (job_id j) = Some ?done"
    using completed_job_stores_result [of env_ok "take_job id_1 world_posted" id_1 Returned
        "world_after env_ok" "[job_a\<lparr>status := Processing\<rparr>, ?done]" ?done, THEN conjunct1]
      pre
    by (rule mp)
  then obtain j m results where d:
      "objects_get env_ok (take_job id_1 world_posted) id_1 = Inr j"
      "keras_load_model env_ok ''models/forgery_detection_model.h5'' = Inr m"
      "detect_forgery env_ok \<lparr>model = m\<rparr> (file_path j) = Inr results"
      "analysis_results ?done = PDict results"
      "map_of results ''is_authentic'' \<noteq> None"
      "map_of results ''confidence_score'' = Some (confidence_score ?done)"
      "db (world_after env_ok) (job_id j) = Some ?done"
    by blast
  have e4: "PDict [(''is_authentic'', PBool True), (''confidence_score'', PFloat (Fin 0.7)),
             (''analysis_details'', PDict [(''font_consistency'', PStr ''consistent''),
                (''pixel_analysis'', PStr ''clean''), (''compression_artifacts'', PBool False)])] =
        PDict results"
    using d(4) by simp
  have e6: "map_of results ''confidence_score'' = Some (PFloat (Fin 0.7))"
    using d(6) by simp
  show ?thesis
    using run wr d(1,2,3,5,7) e4 e6 by blast
qed

lemma preprocess_image_decoded:
  "cv2_imread e p = Some img \<Longrightarrow> img \<noteq> [] \<Longrightarrow> hd img \<noteq> [] \<Longrightarrow>
   \<exists>t. preprocess_image e p = Inr t"
  by (simp add: preprocess_image_def cv2_resize_Some del: upt_rec_numeral)

text \<open>
  C2, as amended. Take a stored job whose file decodes to an image. If the model
  loads, its \<^verbatim>\<open>predict\<close> on the preprocessed image returns an array with first
  entry \<open>c\<close>, the three analysis helpers return, and the saves at lines 12 and 21
  succeed, then the worker, run on a spelling of the job's id, returns, and \<open>get\<close> on
  a spelling of the job's id answers 200 with the status completed, the confidence
  score \<open>c\<close>, and an \<open>analysis_results\<close> mapping with the keys \<open>is_authentic\<close>,
  \<open>confidence_score\<close> and \<open>analysis_details\<close>, the last one holding the three
  analysis keys.
\<close>

theorem valid_image_completed:
  assumes job: "to_python e jid = Some u" "db w u = Some j" "job_id j = u"
    and image: "cv2_imread e (file_path j) = Some img" "img \<noteq> []" "hd img \<noteq> []"
    and load: "keras_load_model e ''models/forgery_detection_model.h5'' = Inr m"
    and predict: "\<And>t. preprocess_image e (file_path j) = Inr t \<Longrightarrow> m t = Inr prediction"
      "first_output prediction = Inr c"
    and helpers: "check_font_consistency e (file_path j) = Inr font"
      "analyze_pixels e (file_path j) = Inr pixels"
      "detect_compression_artifacts e (file_path j) = Inr artifacts"
    and saves: "save_processing_error e = None" "save_completed_error e = None"
    and request: "to_python e' verification_id = Some u"
  shows "\<exists>w'. process_document_verification e w jid = (Returned, w') \<and>
     get e' w' verification_id =
       (Inr \<lparr>status_code = 200,
         data = [(''verification_id'', PStr u),
                 (''status'', PStr ''completed''),
                 (''confidence_score'', PFloat c),
                 (''analysis_results'',
                  PDict [(''is_authentic'', PBool (float_gt c (Fin 0.5))),
                         (''confidence_score'', PFloat c),
                         (''analysis_details'',
                          PDict [(''font_consistency'', font),
                                 (''pixel_analysis'', pixels),
                                 (''compression_artifacts'', artifacts)])])]\<rparr>, w')"
proof -
  obtain t where t: "preprocess_image e (file_path j) = Inr t"
    using preprocess_image_decoded [OF image] by blast
  have d: "detect_forgery e \<lparr>model = m\<rparr> (file_path j) =
      Inr [(''is_authentic'', PBool (float_gt c (Fin 0.5))),
           (''confidence_score'', PFloat c),
           (''analysis_details'',
            PDict [(''font_consistency'', font),
                   (''pixel_analysis'', pixels),
                   (''compression_artifacts'', artifacts)])]"
    using t predict(1) [OF t] predict(2) helpers
    by (simp add: detect_forgery_def get_detailed_analysis_def)
  show ?thesis
    using job load saves d request
    by (simp add: process_document_verification_def objects_get_def save_def
        ForgeryDetector_init_eq dict_getitem_def Let_def get_def db_write_row db_loaded)
qed

theorem valid_image_completed_witness:
  "\<exists>w'. process_document_verification env_ok (take_job id_1 world_posted) id_1 =
          (Returned, w') \<and>
     get env_ok w' id_1_upper =
       (Inr \<lparr>status_code = 200,
         data = [(''verification_id'', PStr id_1),
                 (''status'', PStr ''completed''),
                 (''confidence_score'', PFloat (Fin 0.7)),
                 (''analysis_results'',
                  PDict [(''is_authentic'', PBool (float_gt (Fin 0.7) (Fin 0.5))),
                         (''confidence_score'', PFloat (Fin 0.7)),
                         (''analysis_details'',
                          PDict [(''font_consistency'', PStr ''consistent''),
                                 (''pixel_analysis'', PStr ''clean''),
                                 (''compression_artifacts'', PBool False)])])]\<rparr>, w')"
proof -
  have job: "to_python env_ok id_1 = Some id_1"
    "db (take_job id_1 world_posted) id_1 = Some job_a" "job_id job_a = id_1"
    by (simp_all add: world_posted_eq take_job_def job_a_def to_python_env_ok
        parse_uuid_examples)
  have image: "cv2_imread env_ok (file_path job_a) = Some [[(1, 2, 3)]]"
    "[[(1, 2, 3)]] \<noteq> ([] :: image)" "hd [[(1, 2, 3)]] \<noteq> ([] :: bgr list)"
    by (simp_all add: env_ok_def job_a_def)
  have load: "keras_load_model env_ok ''models/forgery_detection_model.h5'' =
      Inr (\<lambda>t. Inr [[Fin 0.7]])"
    by (simp add: env_ok_def)
  have predict: "\<And>t. preprocess_image env_ok (file_path job_a) = Inr t \<Longrightarrow>
      (\<lambda>t. Inr [[Fin 0.7]]) t = (Inr [[Fin 0.7]] :: exn + pyfloat list list)"
    "first_output [[Fin 0.7]] = Inr (Fin 0.7)"
    by (simp_all add: first_output_def)
  have helpers: "check_font_consistency env_ok (file_path job_a) = Inr (PStr ''consistent'')"
    "analyze_pixels env_ok (file_path job_a) = Inr (PStr ''clean'')"
    "detect_compression_artifacts env_ok (file_path job_a) = Inr (PBool False)"
    by (simp_all add: env_ok_def)
  have saves: "save_processing_error env_ok = None" "save_completed_error env_ok = None"
    by (simp_all add: env_ok_def)
  have request: "to_python env_ok id_1_upper = Some id_1"
    by (simp add: to_python_env_ok parse_uuid_examples)
  show ?thesis
    using valid_image_completed [OF job image load predict helpers saves request] .
qed

text \<open>
  C2 as stated fails. In the state after an upload of a decodable image and a run in
  which everything succeeds, the \<open>analysis_results\<close> of the response has no key
  \<open>font_consistency\<close>: the three analysis keys are one level down, under
  \<open>analysis_details\<close>. With the same image and a missing model file the job ends
  failed with a null score; with a model that answers 1.5 the score is 1.5.
\<close>

theorem valid_image_counterexample:
  "fst (get env_ok (world_after env_ok) id_1) =
     Inr \<lparr>status_code = 200,
          data = [(''verification_id'', PStr id_1),
                  (''status'', PStr ''completed''),
                  (''confidence_score'', PFloat (Fin 0.7)),
                  (''analysis_results'',
                   PDict [(''is_authentic'', PBool True),
                          (''confidence_score'', PFloat (Fin 0.7)),
                          (''analysis_details'',
                           PDict [(''font_consistency'', PStr ''consistent''),
                                  (''pixel_analysis'', PStr ''clean''),
                                  (''compression_artifacts'', PBool False)])])]\<rparr> \<and>
   map_of [(''is_authentic'', PBool True),
           (''confidence_score'', PFloat (Fin 0.7)),
           (''analysis_details'',
            PDict [(''font_consistency'', PStr ''consistent''),
                   (''pixel_analysis'', PStr ''clean''),
                   (''compression_artifacts'', PBool False)])] ''font_consistency'' = None \<and>
   cv2_imread env_no_model ''uploads/a.jpg'' = Some [[(1, 2, 3)]] \<and>
   fst (get env_ok (world_after env_no_model) id_1) =
     Inr \<lparr>status_code = 200,
          data = [(''verification_id'', PStr id_1),
                  (''status'', PStr ''failed''),
                  (''confidence_score'', PNone),
                  (''analysis_results'',
                   PDict [(''error'', PStr
                     ''No file or directory found at models/forgery_detection_model.h5'')])]\<rparr> \<and>
   fst (get env_ok (world_after env_wide) id_1) =
     Inr \<lparr>status_code = 200,
          data = [(''verification_id'', PStr id_1),
                  (''status'', PStr ''completed''),
                  (''confidence_score'', PFloat (Fin 1.5)),
                  (''analysis_results'',
                   PDict [(''is_authentic'', PBool True),
                          (''confidence_score'', PFloat (Fin 1.5)),
                          (''analysis_details'',
                           PDict [(''font_consistency'', PStr ''consistent''),
                                  (''pixel_analysis'', PStr ''clean''),
                                  (''compression_artifacts'', PBool False)])])]\<rparr>"
proof -
  have img: "cv2_imread env_no_model ''uploads/a.jpg'' = Some [[(1, 2, 3)]]"
    by (simp add: env_defs)
  show ?thesis
    by (simp add: img get_def objects_get_def to_python_env_ok parse_uuid_examples
        world_after_ok world_after_no_model world_after_wide job_a_def)
qed

section \<open>Loading the model\<close>

text \<open>
  C9, as amended. The model is loaded once for every detector that is built, and the
  worker builds a detector in every run that finds its job and gets past the save at
  line 12: such a run adds exactly one load, any other run adds none, so a process
  loads the model once per processed job. A load that fails is not retried: the
  constructor hands the exception on after that single load.
\<close>

theorem load_once_per_run:
  "loads (snd (process_document_verification e w jid)) =
     (if (\<exists>u. to_python e jid = Some u \<and> db w u \<noteq> None) \<and> save_processing_error e = None
      then Suc (loads w) else loads w) \<and>
   (keras_load_model e ''models/forgery_detection_model.h5'' = Inl x \<longrightarrow>
      ForgeryDetector_init e w = (Inl x, w\<lparr>loads := Suc (loads w)\<rparr>))"
  by (auto simp: process_document_verification_def objects_get_def save_def write_row_def
      ForgeryDetector_init_def load_model_def except_handler_def Let_def
      split: option.splits sum.splits prod.splits)

theorem load_once_per_run_witness:
  "loads (world_after env_no_model) = Suc (loads (take_job id_1 world_posted)) \<and>
   keras_load_model env_no_model ''models/forgery_detection_model.h5'' =
     Inl (LibraryError ''No file or directory found at models/forgery_detection_model.h5'') \<and>
   ForgeryDetector_init env_no_model init_world =
     (Inl (LibraryError ''No file or directory found at models/forgery_detection_model.h5''),
      init_world\<lparr>loads := Suc (loads init_world)\<rparr>)"
proof -
  have a: "(\<exists>u. to_python env_no_model id_1 = Some u \<and>
              db (take_job id_1 world_posted) u \<noteq> None) \<and>
      save_processing_error env_no_model = None"
    by (simp add: world_posted_eq take_job_def env_defs parse_uuid_examples)
  have b: "keras_load_model env_no_model ''models/forgery_detection_model.h5'' =
     Inl (LibraryError ''No file or directory found at models/forgery_detection_model.h5'')"
    by (simp add: env_defs)
  show ?thesis
    using a b
      load_once_per_run [of env_no_model "take_job id_1 world_posted" id_1
        "LibraryError ''No file or directory found at models/forgery_detection_model.h5''"]
      load_once_per_run [of env_no_model init_world id_1
        "LibraryError ''No file or directory found at models/forgery_detection_model.h5''"]
    by (simp add: world_after_def)
qed

text \<open>
  C9 as stated fails: one process that handles two uploads, one run each, has loaded
  the model twice.
\<close>

theorem model_loaded_for_each_job:
  "reachable world_two_done \<and> loads world_two_done = 2"
proof -
  have p2: "reachable world_two_posted"
    unfolding world_two_posted_def
    by (rule reach_step [OF reachable_posted]) (rule step_post [OF prod.collapse [symmetric]])
  have q1: "id_1 \<in> set (queue world_two_posted)"
    by (simp add: world_two_posted_def world_posted_eq post_def request_a_def upload_a_def
        objects_create_def delay_def write_row_def job_a_def Let_def env_defs ids_distinct)
  let ?w1 = "snd (process_document_verification env_ok
                       (take_job id_1 world_two_posted) id_1)"
  have "process_document_verification env_ok
          (if True then take_job id_1 world_two_posted else world_two_posted) id_1 =
        (fst (process_document_verification env_ok (take_job id_1 world_two_posted) id_1), ?w1)"
    by simp
  then have "step world_two_posted ?w1" by (rule step_work [OF q1])
  then have r1: "reachable ?w1" by (rule reach_step [OF p2])
  have q2: "id_2 \<in> set (queue ?w1)"
    by (simp add: world_two_posted_def world_posted_eq post_def request_a_def upload_a_def
        objects_create_def delay_def job_a_def run_defs env_defs ids_distinct
        del: upt_rec_numeral)
  have "process_document_verification env_ok (if True then take_job id_2 ?w1 else ?w1) id_2 =
        (fst (process_document_verification env_ok (take_job id_2 ?w1) id_2), world_two_done)"
    by (simp add: world_two_done_def)
  then have "step ?w1 world_two_done" by (rule step_work [OF q2])
  then have "reachable world_two_done" by (rule reach_step [OF r1])
  then show ?thesis using loads_two_done by simp
qed

end
